theory Spec2Isabelle
  imports Complex_Main "HOL-Library.AList" "HOL-Library.Multiset"
begin

section \<open>The cluster scaler of cloudtik: data model\<close>

text \<open>
  A shallow embedding of \<^verbatim>\<open>python/cloudtik/core/_private/cluster/cluster_scaler.py\<close>.
  Node ids, ips and node type names are Python strings. Times are Python floats read
  from \<^verbatim>\<open>time.time()\<close>; they are modelled as reals, so rounding is not represented.
  A Python dict whose key order is observable (\<^verbatim>\<open>available_node_types\<close>,
  \<^verbatim>\<open>self.updaters\<close>) is an association list; a dict that is only looked up is a map.
  A name with a leading underscore loses it, since an identifier cannot start with one.
\<close>

type_synonym NodeID = string
type_synonym NodeIP = string
type_synonym NodeType = string
type_synonym tags = "string \<rightharpoonup> string"
type_synonym blob = "(string \<times> string) list"

datatype error = KeyError string | ValueError string | Exception string

subsection \<open>Tag names and constants\<close>

text \<open>
  Modelled from the spec: the module \<^verbatim>\<open>cloudtik.core.tags\<close> is not among the sources.
  The spec names the tag attributes \<^verbatim>\<open>kind\<close>, \<^verbatim>\<open>user_node_type\<close>, \<^verbatim>\<open>status\<close> and
  \<^verbatim>\<open>launch_config_hash\<close>, the kinds head, worker and unmanaged, and the statuses
  up-to-date and update-failed.
\<close>

definition CLOUDTIK_TAG_NODE_KIND :: string where
  "CLOUDTIK_TAG_NODE_KIND = ''kind''"

definition CLOUDTIK_TAG_USER_NODE_TYPE :: string where
  "CLOUDTIK_TAG_USER_NODE_TYPE = ''user_node_type''"

definition CLOUDTIK_TAG_NODE_STATUS :: string where
  "CLOUDTIK_TAG_NODE_STATUS = ''status''"

definition CLOUDTIK_TAG_LAUNCH_CONFIG :: string where
  "CLOUDTIK_TAG_LAUNCH_CONFIG = ''launch_config_hash''"

definition CLOUDTIK_TAG_RUNTIME_CONFIG :: string where
  "CLOUDTIK_TAG_RUNTIME_CONFIG = ''runtime_config_hash''"

definition CLOUDTIK_TAG_FILE_MOUNTS_CONTENTS :: string where
  "CLOUDTIK_TAG_FILE_MOUNTS_CONTENTS = ''file_mounts_contents_hash''"

definition NODE_KIND_WORKER :: string where
  "NODE_KIND_WORKER = ''worker''"

definition NODE_KIND_HEAD :: string where
  "NODE_KIND_HEAD = ''head''"

definition NODE_KIND_UNMANAGED :: string where
  "NODE_KIND_UNMANAGED = ''unmanaged''"

definition STATUS_UP_TO_DATE :: string where
  "STATUS_UP_TO_DATE = ''up-to-date''"

definition STATUS_UPDATE_FAILED :: string where
  "STATUS_UPDATE_FAILED = ''update-failed''"

subsection \<open>Configuration\<close>

text \<open>
  The cluster config is a Python dict. A key the code reads with \<^verbatim>\<open>d[k]\<close> is an
  optional field (\<open>None\<close> when the key is missing, where the code raises
  \<^verbatim>\<open>KeyError\<close>); a key read with \<^verbatim>\<open>d.get(k, default)\<close> is an optional field as well,
  and the default is written where it is read.
\<close>

record node_type_config =
  nt_min_workers :: "int option"
  nt_max_workers :: "int option"
  nt_node_config :: "blob option"
  nt_worker_setup_commands :: "string list option"
  nt_initialization_commands :: "string list option"
  nt_docker :: "blob option"

record provider_config =
  pc_type :: string
  pc_disable_node_updaters :: "bool option"
  pc_disable_launch_config_check :: "bool option"

record Config =
  idle_timeout_minutes :: "real option"
  max_workers :: "int option"
  cfg_available_node_types :: "(NodeType \<times> node_type_config) list option"
  head_node_type :: "NodeType option"
  auth :: "blob option"
  file_mounts :: "blob option"
  cluster_synced_files :: "string list option"
  worker_setup_commands :: "string list option"
  worker_start_commands :: "string list option"
  initialization_commands :: "string list option"
  file_mounts_sync_continuously :: "bool option"
  upscaling_speed :: "real option"
  restart_only :: "bool option"
  no_restart :: "bool option"
  docker :: "blob option"
  cluster_name :: "string option"
  cfg_provider :: "provider_config option"

subsection \<open>The node provider, the load metrics and the other collaborators\<close>

text \<open>
  The provider is an external object. Its queries are fields; \<^verbatim>\<open>terminate_nodes\<close> is
  recorded as the list of batches it was called with.
\<close>

record NodeProvider =
  provider_non_terminated_nodes :: "NodeID list"
  node_tags :: "NodeID \<Rightarrow> tags"
  internal_ip :: "NodeID \<Rightarrow> NodeIP"
  terminate_nodes_calls :: "NodeID list list"
  is_local_node_provider :: bool

record LoadMetrics =
  last_used_time_by_ip :: "NodeIP \<rightharpoonup> real"
  last_heartbeat_time_by_ip :: "NodeIP \<rightharpoonup> real"
  resource_requests :: "(string \<times> real) list list"

text \<open>
  Modelled from the spec: \<^verbatim>\<open>LoadMetrics.mark_active\<close> is not among the sources. The spec
  says that \<^verbatim>\<open>mark_active(ip)\<close> bumps last-heartbeat and last-used to now; \<open>t\<close> is the
  clock reading of that call.
\<close>

definition mark_active :: "LoadMetrics \<Rightarrow> NodeIP \<Rightarrow> real \<Rightarrow> LoadMetrics" where
  "mark_active lm ip t =
     lm\<lparr>last_heartbeat_time_by_ip := (last_heartbeat_time_by_ip lm)(ip \<mapsto> t),
        last_used_time_by_ip := (last_used_time_by_ip lm)(ip \<mapsto> t)\<rparr>"

record ClusterPrometheusMetrics =
  config_validation_exceptions :: nat
  reset_exceptions :: nat
  successful_updates :: nat
  successful_recoveries :: nat
  failed_updates :: nat
  failed_recoveries :: nat
  stopped_nodes :: nat
  worker_update_time :: "real list"

text \<open>
  Modelled from the spec: \<^verbatim>\<open>NodeUpdaterThread\<close> is not among the sources. The spec gives
  an updater task the fields node id, for_recovery, exit code (set on completion),
  update duration and the query is_alive. \<open>exitcode\<close> is \<open>None\<close> until the task
  completes.
\<close>

record NodeUpdaterThread =
  updater_node_id :: NodeID
  for_recovery :: bool
  is_alive :: bool
  exitcode :: "int option"
  update_time :: "real option"

record NonTerminatedNodes =
  all_node_ids :: "NodeID list"
  worker_ids :: "NodeID list"
  head_id :: "NodeID option"

datatype KeepOrTerminate = keep | terminate | decide_later

text \<open>
  The reason of a termination is a string of the source. Each constructor stands for one
  of them: \<^verbatim>\<open>f"not in available_node_types: {available_node_types}"\<close> (with the list of
  keys), \<^verbatim>\<open>"max_workers_per_type"\<close>, \<^verbatim>\<open>"idle"\<close>, \<^verbatim>\<open>"outdated"\<close>, \<^verbatim>\<open>"max workers"\<close>,
  \<^verbatim>\<open>"lost contact with node"\<close> and \<^verbatim>\<open>"launch failed"\<close>.
\<close>

datatype reason =
    not_in_available_node_types "NodeType list"
  | max_workers_per_type
  | idle
  | outdated
  | max_workers_reason
  | lost_contact_with_node
  | launch_failed

text \<open>
  What the scaler writes to its logger and to the event summarizer. \<open>Terminating\<close> is the
  message of \<^verbatim>\<open>schedule_node_termination\<close>; debug messages of the pure queries are not
  recorded.
\<close>

datatype log_entry =
    Terminating NodeID NodeIP reason
  | InconsistentConfig int nat
  | ConfigValidationFailed
  | ErrorParsingConfig error
  | NodeAlreadyTerminated NodeID
  | NoRecentHeartbeat NodeID
  | CreatingUpdater NodeID

datatype event =
    Removing NodeType reason
  | Restarting NodeType

record scheduler_config =
  sched_node_types :: "(NodeType \<times> node_type_config) list"
  sched_max_workers :: int
  sched_head_node_type :: NodeType
  sched_upscaling_speed :: real

record StandardClusterScaler =
  config :: Config
  runtime_hash :: string
  file_mounts_contents_hash :: "string option"
  available_node_types :: "(NodeType \<times> node_type_config) list"
  provider :: NodeProvider
  load_metrics :: LoadMetrics
  prometheus_metrics :: ClusterPrometheusMetrics
  resource_demand_scheduler :: "scheduler_config option"
  updaters :: "(NodeID \<times> NodeUpdaterThread) list"
  orphaned_updaters :: "NodeUpdaterThread list"
  num_failed_updates :: "NodeID \<Rightarrow> nat"
  num_successful_updates :: "NodeID \<Rightarrow> nat"
  non_terminated_nodes :: NonTerminatedNodes
  nodes_to_terminate :: "NodeID list"
  disable_node_updaters :: bool
  disable_launch_config_check :: bool
  node_tracker :: "NodeID \<rightharpoonup> (NodeIP \<times> NodeType)"
  event_summarizer :: "event list"
  logger :: "log_entry list"

text \<open>
  A \<^verbatim>\<open>NodeUpdaterThread\<close> is a Python object: it keeps running when the scaler drops its
  reference to it. \<open>updaters\<close> is the dict \<^verbatim>\<open>self.updaters\<close> in insertion order, and
  \<open>orphaned_updaters\<close> lists the updater threads that \<^verbatim>\<open>self.updaters\<close> referred to and
  no longer does (after \<^verbatim>\<open>del\<close>, or after an assignment to a key that was present).

  The record below holds what the scaler calls and the sources do not contain:
  \<^verbatim>\<open>validate_config\<close> (\<open>Some e\<close> when it raises), \<^verbatim>\<open>hash_runtime_conf\<close>,
  \<^verbatim>\<open>hash_launch_conf\<close>, \<^verbatim>\<open>record_local_head_state_if_needed\<close>, the constant
  \<^verbatim>\<open>CLOUDTIK_HEARTBEAT_TIMEOUT_S\<close>, and the clock: \<open>time_time n\<close> is what \<^verbatim>\<open>time.time()\<close>
  returns while node \<open>n\<close> is being handled. \<open>nodes_needed_for_request_resources\<close> is the
  result of \<^verbatim>\<open>_get_nodes_needed_for_request_resources\<close>, which is decided by the bin
  packing of \<^verbatim>\<open>get_bin_pack_residual\<close>, a function that is not among the sources either.
\<close>

record externals =
  validate_config :: "Config \<Rightarrow> error option"
  hash_runtime_conf ::
    "blob \<Rightarrow> string list \<Rightarrow> string list list \<Rightarrow> bool \<Rightarrow> error + (string \<times> string option)"
  hash_launch_conf :: "blob \<Rightarrow> blob \<Rightarrow> string"
  record_local_head_state_if_needed :: "NodeProvider \<Rightarrow> error + NodeProvider"
  nodes_needed_for_request_resources ::
    "StandardClusterScaler \<Rightarrow> NodeID list \<Rightarrow> error + NodeID list"
  CLOUDTIK_HEARTBEAT_TIMEOUT_S :: real
  time_time :: "NodeID \<Rightarrow> real"

section \<open>Per-type keep or terminate\<close>

definition get_min_workers :: "(NodeType \<times> node_type_config) list \<Rightarrow> NodeType \<Rightarrow> int" where
  "get_min_workers ant node_type =
     (case map_of ant node_type of
        None \<Rightarrow> 0
      | Some c \<Rightarrow> (case nt_min_workers c of None \<Rightarrow> 0 | Some m \<Rightarrow> m))"

definition get_max_workers :: "(NodeType \<times> node_type_config) list \<Rightarrow> NodeType \<Rightarrow> int" where
  "get_max_workers ant node_type =
     (case map_of ant node_type of
        None \<Rightarrow> 0
      | Some c \<Rightarrow> (case nt_max_workers c of None \<Rightarrow> 0 | Some m \<Rightarrow> m))"

text \<open>
  \<^verbatim>\<open>_keep_worker_of_node_type\<close>. \<open>node_type_counts\<close> is a \<^verbatim>\<open>defaultdict(int)\<close>: a key never
  stored reads as 0.
\<close>

definition keep_worker_of_node_type ::
  "StandardClusterScaler \<Rightarrow> NodeID \<Rightarrow> (NodeType \<Rightarrow> int) \<Rightarrow> KeepOrTerminate \<times> reason option" where
  "keep_worker_of_node_type self node_id node_type_counts =
     (case node_tags (provider self) node_id CLOUDTIK_TAG_USER_NODE_TYPE of
        None \<Rightarrow> (decide_later, None)
      | Some node_type \<Rightarrow>
          (let min_workers = get_min_workers (available_node_types self) node_type;
               max_workers = get_max_workers (available_node_types self) node_type
           in if map_of (available_node_types self) node_type = None
              then (terminate,
                    Some (not_in_available_node_types (map fst (available_node_types self))))
              else (let new_count = node_type_counts node_type + 1
                    in if new_count \<le> min min_workers max_workers then (keep, None)
                       else if new_count > max_workers then (terminate, Some max_workers_per_type)
                       else (decide_later, None))))"

section \<open>Ordering the workers by last use\<close>

text \<open>
  \<^verbatim>\<open>sorted(nodes, key=last_time_used, reverse=True)\<close>. Python's sort is stable, and with
  \<^verbatim>\<open>reverse=True\<close> it reverses the list, sorts it stably in ascending order and reverses
  the result, so that elements with equal keys keep their order.
\<close>

definition last_time_used :: "StandardClusterScaler \<Rightarrow> (NodeIP \<rightharpoonup> real) \<Rightarrow> NodeID \<Rightarrow> real" where
  "last_time_used self last_used node_id =
     (case last_used (internal_ip (provider self) node_id) of
        None \<Rightarrow> - 1
      | Some t \<Rightarrow> t)"

definition sorted_reverse :: "('a \<Rightarrow> real) \<Rightarrow> 'a list \<Rightarrow> 'a list" where
  "sorted_reverse key xs = rev (sort_key key (rev xs))"

definition sort_based_on_last_used ::
  "StandardClusterScaler \<Rightarrow> NodeID list \<Rightarrow> (NodeIP \<rightharpoonup> real) \<Rightarrow> NodeID list" where
  "sort_based_on_last_used self nodes last_used =
     sorted_reverse (last_time_used self last_used) nodes"

section \<open>Scheduling and performing terminations\<close>

definition get_node_type :: "StandardClusterScaler \<Rightarrow> NodeID \<Rightarrow> NodeType" where
  "get_node_type self node_id =
     (case node_tags (provider self) node_id CLOUDTIK_TAG_USER_NODE_TYPE of
        Some node_type \<Rightarrow> node_type
      | None \<Rightarrow> ''unknown_node_type'')"

text \<open>
  \<^verbatim>\<open>schedule_node_termination\<close> logs the message with the reason, records an event and
  appends the node to \<^verbatim>\<open>self.nodes_to_terminate\<close>. The level of the message (the
  \<^verbatim>\<open>logger_method\<close> argument) is not represented.
\<close>

definition schedule_node_termination ::
  "StandardClusterScaler \<Rightarrow> NodeID \<Rightarrow> reason option \<Rightarrow> error + StandardClusterScaler" where
  "schedule_node_termination self node_id reason_opt =
     (case reason_opt of
        None \<Rightarrow> Inl (Exception ''reason should be not None.'')
      | Some reason \<Rightarrow>
          Inr (self\<lparr>logger := logger self @
                         [Terminating node_id (internal_ip (provider self) node_id) reason],
                   event_summarizer := event_summarizer self @
                         [Removing (get_node_type self node_id) reason],
                   nodes_to_terminate := nodes_to_terminate self @ [node_id]\<rparr>))"


definition untrack ::
  "(NodeID \<rightharpoonup> (NodeIP \<times> NodeType)) \<Rightarrow> NodeID \<Rightarrow> (NodeID \<rightharpoonup> (NodeIP \<times> NodeType))" where
  "untrack tracker node_id = tracker(node_id := None)"

definition remove_terminating_nodes :: "NonTerminatedNodes \<Rightarrow> NodeID list \<Rightarrow> NonTerminatedNodes" where
  "remove_terminating_nodes ntn terminating_nodes =
     ntn\<lparr>worker_ids := filter (\<lambda>node. node \<notin> set terminating_nodes) (worker_ids ntn),
         all_node_ids := filter (\<lambda>node. node \<notin> set terminating_nodes) (all_node_ids ntn)\<rparr>"

text \<open>
  \<^verbatim>\<open>terminate_scheduled_nodes\<close>: one call of \<^verbatim>\<open>provider.terminate_nodes\<close> with the whole
  list (after \<^verbatim>\<open>drain_nodes_gracefully\<close>, which does nothing).
\<close>

definition terminate_scheduled_nodes :: "StandardClusterScaler \<Rightarrow> StandardClusterScaler" where
  "terminate_scheduled_nodes self =
     (if nodes_to_terminate self = [] then self
      else self\<lparr>provider := (provider self)\<lparr>terminate_nodes_calls :=
                      terminate_nodes_calls (provider self) @ [nodes_to_terminate self]\<rparr>,
                node_tracker := fold (\<lambda>node tracker. untrack tracker node)
                      (nodes_to_terminate self) (node_tracker self),
                prometheus_metrics := (prometheus_metrics self)\<lparr>stopped_nodes :=
                      stopped_nodes (prometheus_metrics self) + length (nodes_to_terminate self)\<rparr>,
                non_terminated_nodes :=
                      remove_terminating_nodes (non_terminated_nodes self) (nodes_to_terminate self),
                nodes_to_terminate := []\<rparr>)"

section \<open>Launch configuration check and heartbeats\<close>

text \<open>
  \<^verbatim>\<open>launch_config_ok\<close>. \<^verbatim>\<open>node_type not in self.available_node_types\<close> holds for a node
  without the tag (\<^verbatim>\<open>None\<close> is no key); \<^verbatim>\<open>if node_type:\<close> is false for the empty
  string.
\<close>

definition launch_config_ok :: "externals \<Rightarrow> StandardClusterScaler \<Rightarrow> NodeID \<Rightarrow> error + bool" where
  "launch_config_ok ext self node_id =
     (if disable_launch_config_check self then Inr True
      else (let tag_launch_conf = node_tags (provider self) node_id CLOUDTIK_TAG_LAUNCH_CONFIG
            in case node_tags (provider self) node_id CLOUDTIK_TAG_USER_NODE_TYPE of
                 None \<Rightarrow> Inr False
               | Some node_type \<Rightarrow>
                   if map_of (available_node_types self) node_type = None then Inr False
                   else (case (if node_type \<noteq> []
                               then (case cfg_available_node_types (config self) of
                                       None \<Rightarrow> Inl (KeyError ''available_node_types'')
                                     | Some ant \<Rightarrow>
                                         (case map_of ant node_type of
                                            None \<Rightarrow> Inl (KeyError node_type)
                                          | Some c \<Rightarrow>
                                              (case nt_node_config c of
                                                 None \<Rightarrow> Inl (KeyError ''node_config'')
                                               | Some node_config \<Rightarrow> Inr node_config)))
                               else Inr []) of
                           Inl e \<Rightarrow> Inl e
                         | Inr launch_config \<Rightarrow>
                             (case auth (config self) of
                                None \<Rightarrow> Inl (KeyError ''auth'')
                              | Some a \<Rightarrow>
                                  Inr (Some (hash_launch_conf ext launch_config a)
                                         = tag_launch_conf)))))"


definition heartbeat_on_time :: "externals \<Rightarrow> StandardClusterScaler \<Rightarrow> NodeID \<Rightarrow> real \<Rightarrow> bool" where
  "heartbeat_on_time ext self node_id now =
     (case last_heartbeat_time_by_ip (load_metrics self) (internal_ip (provider self) node_id) of
        Some last_heartbeat_time \<Rightarrow>
          (let delta = now - last_heartbeat_time
           in if delta < CLOUDTIK_HEARTBEAT_TIMEOUT_S ext then True else False)
      | None \<Rightarrow> False)"


text \<open>
  The constructor copies the two switches from the provider section of the config:
  \<^verbatim>\<open>self.config["provider"].get("disable_launch_config_check", False)\<close>.
\<close>

definition init_disable_switches :: "StandardClusterScaler \<Rightarrow> error + StandardClusterScaler" where
  "init_disable_switches self =
     (case cfg_provider (config self) of
        None \<Rightarrow> Inl (KeyError ''provider'')
      | Some pc \<Rightarrow>
          Inr (self\<lparr>disable_node_updaters :=
                      (case pc_disable_node_updaters pc of None \<Rightarrow> False | Some b \<Rightarrow> b),
                   disable_launch_config_check :=
                      (case pc_disable_launch_config_check pc of None \<Rightarrow> False | Some b \<Rightarrow> b)\<rparr>))"

section \<open>Terminating nodes to enforce the config constraints\<close>

text \<open>
  The local function \<^verbatim>\<open>keep_node\<close> of \<^verbatim>\<open>terminate_nodes_to_enforce_config_constraints\<close>
  bumps the count of the node's type.
\<close>

definition keep_node ::
  "StandardClusterScaler \<Rightarrow> NodeID \<Rightarrow> (NodeType \<Rightarrow> int) \<Rightarrow> (NodeType \<Rightarrow> int)" where
  "keep_node self node_id node_type_counts =
     (case node_tags (provider self) node_id CLOUDTIK_TAG_USER_NODE_TYPE of
        Some node_type \<Rightarrow> node_type_counts(node_type := node_type_counts node_type + 1)
      | None \<Rightarrow> node_type_counts)"

text \<open>
  The body of the loop over the sorted workers. The loop state is the scaler, the
  counts per type and the list \<^verbatim>\<open>nodes_we_could_terminate\<close>. In
  \<^verbatim>\<open>(keep or protected) and self.launch_config_ok(node_id)\<close> the check is only evaluated
  when the left operand is true.
\<close>

definition enforce_node ::
  "externals \<Rightarrow> real \<Rightarrow> (NodeIP \<rightharpoonup> real) \<Rightarrow> NodeID list \<Rightarrow> NodeID
     \<Rightarrow> StandardClusterScaler \<times> (NodeType \<Rightarrow> int) \<times> NodeID list
     \<Rightarrow> error + StandardClusterScaler \<times> (NodeType \<Rightarrow> int) \<times> NodeID list" where
  "enforce_node ext horizon last_used nodes_not_allowed_to_terminate node_id st =
     (case st of (self, node_type_counts, nodes_we_could_terminate) \<Rightarrow>
        (case keep_worker_of_node_type self node_id node_type_counts of
           (should_keep_or_terminate, reason) \<Rightarrow>
             if should_keep_or_terminate = terminate
             then (case schedule_node_termination self node_id reason of
                     Inl e \<Rightarrow> Inl e
                   | Inr self' \<Rightarrow> Inr (self', node_type_counts, nodes_we_could_terminate))
             else (case (if should_keep_or_terminate = keep
                            \<or> node_id \<in> set nodes_not_allowed_to_terminate
                         then launch_config_ok ext self node_id else Inr False) of
                     Inl e \<Rightarrow> Inl e
                   | Inr True \<Rightarrow>
                       Inr (self, keep_node self node_id node_type_counts,
                            nodes_we_could_terminate)
                   | Inr False \<Rightarrow>
                       (let node_ip = internal_ip (provider self) node_id
                        in if (case last_used node_ip of
                                 None \<Rightarrow> False | Some t \<Rightarrow> t < horizon)
                           then (case schedule_node_termination self node_id (Some idle) of
                                   Inl e \<Rightarrow> Inl e
                                 | Inr self' \<Rightarrow>
                                     Inr (self', node_type_counts, nodes_we_could_terminate))
                           else (case launch_config_ok ext self node_id of
                                   Inl e \<Rightarrow> Inl e
                                 | Inr ok \<Rightarrow>
                                     if \<not> ok
                                     then (case schedule_node_termination self node_id
                                                  (Some outdated) of
                                             Inl e \<Rightarrow> Inl e
                                           | Inr self' \<Rightarrow>
                                               Inr (self', node_type_counts,
                                                    nodes_we_could_terminate))
                                     else Inr (self, keep_node self node_id node_type_counts,
                                               nodes_we_could_terminate @ [node_id]))))))"

fun enforce_nodes ::
  "externals \<Rightarrow> real \<Rightarrow> (NodeIP \<rightharpoonup> real) \<Rightarrow> NodeID list \<Rightarrow> NodeID list
     \<Rightarrow> StandardClusterScaler \<times> (NodeType \<Rightarrow> int) \<times> NodeID list
     \<Rightarrow> error + StandardClusterScaler \<times> (NodeType \<Rightarrow> int) \<times> NodeID list" where
  "enforce_nodes ext horizon last_used protected [] st = Inr st"
| "enforce_nodes ext horizon last_used protected (node_id # sorted_node_ids) st =
     (case enforce_node ext horizon last_used protected node_id st of
        Inl e \<Rightarrow> Inl e
      | Inr st' \<Rightarrow> enforce_nodes ext horizon last_used protected sorted_node_ids st')"

fun schedule_all :: "StandardClusterScaler \<Rightarrow> NodeID list \<Rightarrow> reason \<Rightarrow> error + StandardClusterScaler" where
  "schedule_all self [] r = Inr self"
| "schedule_all self (node_id # nodes) r =
     (case schedule_node_termination self node_id (Some r) of
        Inl e \<Rightarrow> Inl e
      | Inr self' \<Rightarrow> schedule_all self' nodes r)"

text \<open>
  The part after the loop: the surplus over the global \<^verbatim>\<open>max_workers\<close>, the warning, and
  the slice \<^verbatim>\<open>nodes_we_could_terminate[-num_extra_nodes_to_terminate:]\<close>, which for
  \<^verbatim>\<open>0 < n <= len(xs)\<close> is the last \<open>n\<close> elements.
\<close>

definition terminate_extra_nodes ::
  "StandardClusterScaler \<Rightarrow> NodeID list \<Rightarrow> error + StandardClusterScaler" where
  "terminate_extra_nodes self nodes_we_could_terminate =
     (case max_workers (config self) of
        None \<Rightarrow> Inl (KeyError ''max_workers'')
      | Some max_w \<Rightarrow>
          (let num_workers = int (length (worker_ids (non_terminated_nodes self)));
               num_extra_nodes_to_terminate =
                 num_workers - int (length (nodes_to_terminate self)) - max_w;
               too_many = (num_extra_nodes_to_terminate > int (length nodes_we_could_terminate));
               self1 = (if too_many
                        then self\<lparr>logger := logger self @
                                   [InconsistentConfig num_extra_nodes_to_terminate
                                      (length nodes_we_could_terminate)]\<rparr>
                        else self);
               num_extra = (if too_many then int (length nodes_we_could_terminate)
                            else num_extra_nodes_to_terminate)
           in (case (if num_extra > 0
                     then schedule_all self1
                            (drop (length nodes_we_could_terminate - nat num_extra)
                               nodes_we_could_terminate)
                            max_workers_reason
                     else Inr self1) of
                 Inl e \<Rightarrow> Inl e
               | Inr self2 \<Rightarrow> Inr (terminate_scheduled_nodes self2))))"

definition terminate_nodes_to_enforce_config_constraints ::
  "externals \<Rightarrow> StandardClusterScaler \<Rightarrow> real \<Rightarrow> error + StandardClusterScaler" where
  "terminate_nodes_to_enforce_config_constraints ext self now =
     (let last_used = last_used_time_by_ip (load_metrics self)
      in case idle_timeout_minutes (config self) of
           None \<Rightarrow> Inl (KeyError ''idle_timeout_minutes'')
         | Some timeout_minutes \<Rightarrow>
             (let horizon = now - 60 * timeout_minutes;
                  sorted_node_ids = sort_based_on_last_used self
                                      (worker_ids (non_terminated_nodes self)) last_used
              in case (if resource_requests (load_metrics self) \<noteq> []
                       then nodes_needed_for_request_resources ext self sorted_node_ids
                       else Inr []) of
                   Inl e \<Rightarrow> Inl e
                 | Inr nodes_not_allowed_to_terminate \<Rightarrow>
                     (case enforce_nodes ext horizon last_used nodes_not_allowed_to_terminate
                             sorted_node_ids (self, (\<lambda>_. 0), []) of
                        Inl e \<Rightarrow> Inl e
                      | Inr (self', node_type_counts, nodes_we_could_terminate) \<Rightarrow>
                          terminate_extra_nodes self' nodes_we_could_terminate)))"

section \<open>Unhealthy nodes when the node updaters are disabled\<close>

definition unhealthy_node ::
  "externals \<Rightarrow> real \<Rightarrow> NodeID \<Rightarrow> StandardClusterScaler \<Rightarrow> error + StandardClusterScaler" where
  "unhealthy_node ext now node_id self =
     (case node_tags (provider self) node_id CLOUDTIK_TAG_NODE_STATUS of
        None \<Rightarrow> Inl (KeyError CLOUDTIK_TAG_NODE_STATUS)
      | Some node_status \<Rightarrow>
          if \<not> node_status = STATUS_UP_TO_DATE then Inr self
          else (let ip = internal_ip (provider self) node_id;
                    self1 = (if last_heartbeat_time_by_ip (load_metrics self) ip = None
                             then self\<lparr>load_metrics :=
                                    mark_active (load_metrics self) ip (time_time ext node_id)\<rparr>
                             else self)
                in if heartbeat_on_time ext self1 node_id now then Inr self1
                   else schedule_node_termination self1 node_id (Some lost_contact_with_node)))"

fun unhealthy_nodes ::
  "externals \<Rightarrow> real \<Rightarrow> NodeID list \<Rightarrow> StandardClusterScaler \<Rightarrow> error + StandardClusterScaler" where
  "unhealthy_nodes ext now [] self = Inr self"
| "unhealthy_nodes ext now (node_id # nodes) self =
     (case unhealthy_node ext now node_id self of
        Inl e \<Rightarrow> Inl e
      | Inr self' \<Rightarrow> unhealthy_nodes ext now nodes self')"

definition terminate_unhealthy_nodes ::
  "externals \<Rightarrow> StandardClusterScaler \<Rightarrow> real \<Rightarrow> error + StandardClusterScaler" where
  "terminate_unhealthy_nodes ext self now =
     (case unhealthy_nodes ext now (worker_ids (non_terminated_nodes self)) self of
        Inl e \<Rightarrow> Inl e
      | Inr self' \<Rightarrow> Inr (terminate_scheduled_nodes self'))"

section \<open>The non-terminated nodes\<close>

text \<open>
  \<^verbatim>\<open>NonTerminatedNodes.__init__\<close>: \<^verbatim>\<open>provider.node_tags(node)[CLOUDTIK_TAG_NODE_KIND]\<close>
  raises \<^verbatim>\<open>KeyError\<close> when the node has no kind tag.
\<close>

fun classify_nodes ::
  "NodeProvider \<Rightarrow> NodeID list \<Rightarrow> NonTerminatedNodes \<Rightarrow> error + NonTerminatedNodes" where
  "classify_nodes prov [] ntn = Inr ntn"
| "classify_nodes prov (node # nodes) ntn =
     (case node_tags prov node CLOUDTIK_TAG_NODE_KIND of
        None \<Rightarrow> Inl (KeyError CLOUDTIK_TAG_NODE_KIND)
      | Some node_kind \<Rightarrow>
          if node_kind = NODE_KIND_WORKER
          then classify_nodes prov nodes (ntn\<lparr>worker_ids := worker_ids ntn @ [node]\<rparr>)
          else if node_kind = NODE_KIND_HEAD
          then classify_nodes prov nodes (ntn\<lparr>head_id := Some node\<rparr>)
          else classify_nodes prov nodes ntn)"

definition NonTerminatedNodes_init :: "NodeProvider \<Rightarrow> error + NonTerminatedNodes" where
  "NonTerminatedNodes_init prov =
     classify_nodes prov (provider_non_terminated_nodes prov)
       \<lparr>all_node_ids = provider_non_terminated_nodes prov, worker_ids = [], head_id = None\<rparr>"

section \<open>The node updaters\<close>

text \<open>
  The routines of this section can raise after they have changed the scaler, and the
  scaler lives on to the next tick. Their result is the exception, if any, together with
  the state the scaler is left in.
\<close>

fun for_each :: "('a \<Rightarrow> 's \<Rightarrow> error option \<times> 's) \<Rightarrow> 'a list \<Rightarrow> 's \<Rightarrow> error option \<times> 's" where
  "for_each body [] s = (None, s)"
| "for_each body (x # xs) s =
     (case body x s of
        (Some e, s') \<Rightarrow> (Some e, s')
      | (None, s') \<Rightarrow> for_each body xs s')"



text \<open>
  Modelled from the spec: the constructor and \<^verbatim>\<open>start\<close> of \<^verbatim>\<open>NodeUpdaterThread\<close> are not
  among the sources. A started updater is alive and has no exit code yet.
\<close>

definition new_updater :: "NodeID \<Rightarrow> bool \<Rightarrow> NodeUpdaterThread" where
  "new_updater node_id recovery =
     \<lparr>updater_node_id = node_id, for_recovery = recovery, is_alive = True,
      exitcode = None, update_time = None\<rparr>"


definition del_updater :: "StandardClusterScaler \<Rightarrow> NodeID \<Rightarrow> StandardClusterScaler" where
  "del_updater self node_id =
     self\<lparr>updaters := AList.delete node_id (updaters self),
          orphaned_updaters :=
            (case map_of (updaters self) node_id of None \<Rightarrow> [] | Some old \<Rightarrow> [old])
              @ orphaned_updaters self\<rparr>"

subsection \<open>Completed updates\<close>

text \<open>
  The body of the loop over \<^verbatim>\<open>completed_nodes\<close>; \<open>updater\<close> is \<^verbatim>\<open>self.updaters[node_id]\<close>,
  the entry the first loop found not alive.
\<close>

definition completed_update ::
  "externals \<Rightarrow> NodeID \<times> NodeUpdaterThread \<Rightarrow> StandardClusterScaler \<times> NodeID list
     \<Rightarrow> StandardClusterScaler \<times> NodeID list" where
  "completed_update ext entry st =
     (case entry of (node_id, updater) \<Rightarrow>
      case st of (self, failed_nodes) \<Rightarrow>
        if exitcode updater = Some 0
        then (del_updater
                (self\<lparr>num_successful_updates := (num_successful_updates self)
                         (node_id := num_successful_updates self node_id + 1),
                      prometheus_metrics := (prometheus_metrics self)
                        \<lparr>successful_updates := successful_updates (prometheus_metrics self) + 1,
                         successful_recoveries :=
                           (if for_recovery updater
                            then successful_recoveries (prometheus_metrics self) + 1
                            else successful_recoveries (prometheus_metrics self)),
                         worker_update_time :=
                           (case update_time updater of
                              None \<Rightarrow> worker_update_time (prometheus_metrics self)
                            | Some t \<Rightarrow>
                                if t \<noteq> 0 then worker_update_time (prometheus_metrics self) @ [t]
                                else worker_update_time (prometheus_metrics self))\<rparr>,
                      load_metrics := mark_active (load_metrics self)
                         (internal_ip (provider self) node_id) (time_time ext node_id)\<rparr>)
                node_id,
              failed_nodes)
        else (del_updater
                (self\<lparr>num_failed_updates := (num_failed_updates self)
                         (node_id := num_failed_updates self node_id + 1),
                      prometheus_metrics := (prometheus_metrics self)
                        \<lparr>failed_updates := failed_updates (prometheus_metrics self) + 1,
                         failed_recoveries :=
                           (if for_recovery updater
                            then failed_recoveries (prometheus_metrics self) + 1
                            else failed_recoveries (prometheus_metrics self))\<rparr>,
                      node_tracker := untrack (node_tracker self) node_id\<rparr>)
                node_id,
              failed_nodes @ [node_id]))"

definition failed_update :: "NodeID \<Rightarrow> StandardClusterScaler \<Rightarrow> error option \<times> StandardClusterScaler" where
  "failed_update node_id self =
     (if node_id \<in> set (worker_ids (non_terminated_nodes self))
      then (case schedule_node_termination self node_id (Some launch_failed) of
              Inl e \<Rightarrow> (Some e, self)
            | Inr self' \<Rightarrow> (None, self'))
      else (None, self\<lparr>logger := logger self @ [NodeAlreadyTerminated node_id]\<rparr>))"

definition process_completed_updates ::
  "externals \<Rightarrow> StandardClusterScaler \<Rightarrow> error option \<times> StandardClusterScaler" where
  "process_completed_updates ext self =
     (let completed_nodes = filter (\<lambda>(node_id, updater). \<not> is_alive updater) (updaters self)
      in if completed_nodes = [] then (None, self)
         else (case fold (completed_update ext) completed_nodes (self, []) of
                 (self1, failed_nodes) \<Rightarrow>
                   if failed_nodes = [] then (None, self1)
                   else (case for_each failed_update failed_nodes self1 of
                           (Some e, self2) \<Rightarrow> (Some e, self2)
                         | (None, self2) \<Rightarrow> (None, terminate_scheduled_nodes self2))))"

subsection \<open>Dispatching updaters\<close>







subsection \<open>Recovery\<close>



section \<open>Reloading the configuration\<close>

text \<open>
  \<^verbatim>\<open>reset\<close> for a scaler that has a config and a provider, as in every tick (the
  constructor has called \<^verbatim>\<open>reset(errors_fatal=True)\<close> before). \<open>read\<close> is the outcome of
  \<^verbatim>\<open>self.config_reader()\<close>. \<open>reset_body\<close> is the \<^verbatim>\<open>try\<close> block: the exception it ends
  with, if any, and the scaler at that point.
\<close>

definition reset_body ::
  "externals \<Rightarrow> error + Config \<Rightarrow> StandardClusterScaler
     \<Rightarrow> error option \<times> StandardClusterScaler" where
  "reset_body ext read self =
     (let sync_continuously =
            (case file_mounts_sync_continuously (config self) of None \<Rightarrow> False | Some b \<Rightarrow> b)
      in case read of
           Inl e \<Rightarrow> (Some e, self)
         | Inr new_config \<Rightarrow>
             (let self1 =
                    (if new_config \<noteq> config self
                     then (case validate_config ext new_config of
                             None \<Rightarrow> self
                           | Some e \<Rightarrow>
                               self\<lparr>prometheus_metrics := (prometheus_metrics self)
                                       \<lparr>config_validation_exceptions :=
                                          config_validation_exceptions (prometheus_metrics self) + 1\<rparr>,
                                    logger := logger self @ [ConfigValidationFailed]\<rparr>)
                     else self)
              in case file_mounts new_config of
                   None \<Rightarrow> (Some (KeyError ''file_mounts''), self1)
                 | Some fm \<Rightarrow>
              (case cluster_synced_files new_config of
                   None \<Rightarrow> (Some (KeyError ''cluster_synced_files''), self1)
                 | Some synced \<Rightarrow>
              (case worker_setup_commands new_config of
                   None \<Rightarrow> (Some (KeyError ''worker_setup_commands''), self1)
                 | Some setup \<Rightarrow>
              (case worker_start_commands new_config of
                   None \<Rightarrow> (Some (KeyError ''worker_start_commands''), self1)
                 | Some start \<Rightarrow>
              (case hash_runtime_conf ext fm synced [setup, start] sync_continuously of
                   Inl e \<Rightarrow> (Some e, self1)
                 | Inr (new_runtime_hash, new_file_mounts_contents_hash) \<Rightarrow>
              (let self2 = self1\<lparr>config := new_config,
                                 runtime_hash := new_runtime_hash,
                                 file_mounts_contents_hash := new_file_mounts_contents_hash\<rparr>
               in case (if is_local_node_provider (provider self2)
                        then record_local_head_state_if_needed ext (provider self2)
                        else Inr (provider self2)) of
                    Inl e \<Rightarrow> (Some e, self2)
                  | Inr prov \<Rightarrow>
              (let self3 = self2\<lparr>provider := prov\<rparr>
               in case cfg_available_node_types (config self3) of
                    None \<Rightarrow> (Some (KeyError ''available_node_types''), self3)
                  | Some ant \<Rightarrow>
              (let self4 = self3\<lparr>available_node_types := ant\<rparr>;
                   speed = (case upscaling_speed (config self4) of
                              None \<Rightarrow> 1
                            | Some v \<Rightarrow> if v \<noteq> 0 then v else 1)
               in case max_workers (config self4) of
                    None \<Rightarrow> (Some (KeyError ''max_workers''), self4)
                  | Some max_w \<Rightarrow>
              (case head_node_type (config self4) of
                    None \<Rightarrow> (Some (KeyError ''head_node_type''), self4)
                  | Some head_type \<Rightarrow>
                      (None, self4\<lparr>resource_demand_scheduler :=
                                Some \<lparr>sched_node_types = ant, sched_max_workers = max_w,
                                      sched_head_node_type = head_type,
                                      sched_upscaling_speed = speed\<rparr>\<rparr>)))))))))))"

definition reset ::
  "externals \<Rightarrow> bool \<Rightarrow> error + Config \<Rightarrow> StandardClusterScaler
     \<Rightarrow> error + StandardClusterScaler" where
  "reset ext errors_fatal read self =
     (case reset_body ext read self of
        (None, self') \<Rightarrow> Inr self'
      | (Some e, self') \<Rightarrow>
          (let self'' = self'\<lparr>prometheus_metrics := (prometheus_metrics self')
                                \<lparr>reset_exceptions :=
                                   reset_exceptions (prometheus_metrics self') + 1\<rparr>\<rparr>
           in if errors_fatal then Inl e
              else Inr (self''\<lparr>logger := logger self'' @ [ErrorParsingConfig e]\<rparr>)))"

section \<open>What was scheduled, and the updater invariant\<close>

text \<open>
  The terminations scheduled by a routine are read off the messages it appended to the
  log: \<open>scheduled_since self self'\<close> lists the node and the reason of each message of
  \<^verbatim>\<open>schedule_node_termination\<close> written between the two states.
\<close>

fun scheduled :: "log_entry list \<Rightarrow> (NodeID \<times> reason) list" where
  "scheduled [] = []"
| "scheduled (Terminating node_id ip r # es) = (node_id, r) # scheduled es"
| "scheduled (e # es) = scheduled es"

definition scheduled_since ::
  "StandardClusterScaler \<Rightarrow> StandardClusterScaler \<Rightarrow> (NodeID \<times> reason) list" where
  "scheduled_since self self' = scheduled (drop (length (logger self)) (logger self'))"



section \<open>A small cluster\<close>

text \<open>
  One node type \<^verbatim>\<open>worker.default\<close> with at least 0 and at most 2 workers, a head and two
  workers \<^verbatim>\<open>w1\<close> and \<^verbatim>\<open>w2\<close>, a heartbeat timeout of 30 seconds.
\<close>

definition example_externals :: externals where
  "example_externals =
     \<lparr>validate_config =
        (\<lambda>c. if idle_timeout_minutes c = None then Some (ValueError ''invalid config'')
              else None),
      hash_runtime_conf = (\<lambda>fm synced commands sync. Inr (''runtime-'' @ concat synced, None)),
      hash_launch_conf = (\<lambda>launch_config a. ''launch-'' @ concat (map fst launch_config)),
      record_local_head_state_if_needed = (\<lambda>prov. Inr prov),
      nodes_needed_for_request_resources = (\<lambda>self nodes. Inr []),
      CLOUDTIK_HEARTBEAT_TIMEOUT_S = 30,
      time_time = (\<lambda>node_id. 1000)\<rparr>"

definition example_node_type :: node_type_config where
  "example_node_type =
     \<lparr>nt_min_workers = Some 0, nt_max_workers = Some 2, nt_node_config = Some [],
      nt_worker_setup_commands = None, nt_initialization_commands = None,
      nt_docker = None\<rparr>"

definition example_config :: Config where
  "example_config =
     \<lparr>idle_timeout_minutes = Some 5, max_workers = Some 2,
      cfg_available_node_types = Some [(''worker.default'', example_node_type)],
      head_node_type = Some ''head.default'', auth = Some [],
      file_mounts = Some [], cluster_synced_files = Some [],
      worker_setup_commands = Some [], worker_start_commands = Some [],
      initialization_commands = Some [], file_mounts_sync_continuously = None,
      upscaling_speed = None, restart_only = None, no_restart = None, docker = None,
      cluster_name = Some ''example'',
      cfg_provider = Some \<lparr>pc_type = ''local'', pc_disable_node_updaters = None,
                            pc_disable_launch_config_check = None\<rparr>\<rparr>"

definition worker_tags :: tags where
  "worker_tags =
     [CLOUDTIK_TAG_NODE_KIND \<mapsto> NODE_KIND_WORKER,
      CLOUDTIK_TAG_USER_NODE_TYPE \<mapsto> ''worker.default'',
      CLOUDTIK_TAG_NODE_STATUS \<mapsto> STATUS_UP_TO_DATE,
      CLOUDTIK_TAG_LAUNCH_CONFIG \<mapsto> ''launch-'',
      CLOUDTIK_TAG_RUNTIME_CONFIG \<mapsto> ''runtime-'']"

definition example_provider :: NodeProvider where
  "example_provider =
     \<lparr>provider_non_terminated_nodes = [''head'', ''w1'', ''w2''],
      node_tags = (\<lambda>node_id. if node_id = ''head''
                              then [CLOUDTIK_TAG_NODE_KIND \<mapsto> NODE_KIND_HEAD]
                              else worker_tags),
      internal_ip = (\<lambda>node_id. ''ip-'' @ node_id),
      terminate_nodes_calls = [],
      is_local_node_provider = False\<rparr>"

definition example_scaler :: StandardClusterScaler where
  "example_scaler =
     \<lparr>config = example_config,
      runtime_hash = ''runtime-'',
      file_mounts_contents_hash = None,
      available_node_types = [(''worker.default'', example_node_type)],
      provider = example_provider,
      load_metrics = \<lparr>last_used_time_by_ip = Map.empty,
                       last_heartbeat_time_by_ip = Map.empty,
                       resource_requests = []\<rparr>,
      prometheus_metrics =
        \<lparr>config_validation_exceptions = 0, reset_exceptions = 0, successful_updates = 0,
         successful_recoveries = 0, failed_updates = 0, failed_recoveries = 0,
         stopped_nodes = 0, worker_update_time = []\<rparr>,
      resource_demand_scheduler = None,
      updaters = [],
      orphaned_updaters = [],
      num_failed_updates = (\<lambda>node_id. 0),
      num_successful_updates = (\<lambda>node_id. 0),
      non_terminated_nodes =
        \<lparr>all_node_ids = [''head'', ''w1'', ''w2''], worker_ids = [''w1'', ''w2''],
         head_id = Some ''head''\<rparr>,
      nodes_to_terminate = [],
      disable_node_updaters = False,
      disable_launch_config_check = False,
      node_tracker = Map.empty,
      event_summarizer = [],
      logger = []\<rparr>"

text \<open>
  The same provider after a node \<^verbatim>\<open>new\<close> has been created and before it has been
  tagged; and a config that \<^verbatim>\<open>validate_config\<close> rejects.
\<close>

definition partially_tagged_provider :: NodeProvider where
  "partially_tagged_provider =
     example_provider\<lparr>provider_non_terminated_nodes := [''head'', ''w1'', ''new''],
                      node_tags := (\<lambda>node_id. if node_id = ''new'' then Map.empty
                                               else node_tags example_provider node_id)\<rparr>"

definition invalid_config :: Config where
  "invalid_config = example_config\<lparr>idle_timeout_minutes := None\<rparr>"

text \<open>
  Three variations: the launch config hash of every node is stale; the idle timeout is 0
  and \<^verbatim>\<open>w1\<close> was last used at time 5; the global \<^verbatim>\<open>max_workers\<close> is 1.
\<close>

definition stale_scaler :: StandardClusterScaler where
  "stale_scaler =
     example_scaler\<lparr>provider := example_provider\<lparr>node_tags := (\<lambda>node_id.
        (node_tags example_provider node_id)(CLOUDTIK_TAG_LAUNCH_CONFIG \<mapsto> ''launch-old''))\<rparr>\<rparr>"

definition idle_zero_scaler :: StandardClusterScaler where
  "idle_zero_scaler =
     example_scaler\<lparr>config := example_config\<lparr>idle_timeout_minutes := Some 0\<rparr>,
                    load_metrics := \<lparr>last_used_time_by_ip = [''ip-w1'' \<mapsto> 5],
                                     last_heartbeat_time_by_ip = [''ip-w1'' \<mapsto> 5],
                                     resource_requests = []\<rparr>\<rparr>"

definition crowded_scaler :: StandardClusterScaler where
  "crowded_scaler = example_scaler\<lparr>config := example_config\<lparr>max_workers := Some 1\<rparr>\<rparr>"

text \<open>
  The node updaters are disabled, \<^verbatim>\<open>w1\<close> sent its last heartbeat at time 50, \<^verbatim>\<open>w2\<close> none,
  and a third worker \<^verbatim>\<open>w3\<close> is still setting up.
\<close>

definition heartbeat_scaler :: StandardClusterScaler where
  "heartbeat_scaler =
     example_scaler\<lparr>
       provider := example_provider\<lparr>
         provider_non_terminated_nodes := [''head'', ''w1'', ''w2'', ''w3''],
         node_tags := (\<lambda>node_id. if node_id = ''w3''
                                  then (node_tags example_provider node_id)
                                         (CLOUDTIK_TAG_NODE_STATUS \<mapsto> ''setting-up'')
                                  else node_tags example_provider node_id)\<rparr>,
       non_terminated_nodes :=
         \<lparr>all_node_ids = [''head'', ''w1'', ''w2'', ''w3''],
          worker_ids = [''w1'', ''w2'', ''w3''], head_id = Some ''head''\<rparr>,
       load_metrics := \<lparr>last_used_time_by_ip = [''ip-w1'' \<mapsto> 50],
                        last_heartbeat_time_by_ip = [''ip-w1'' \<mapsto> 50],
                        resource_requests = []\<rparr>,
       disable_node_updaters := True\<rparr>"

text \<open>
  Three updaters have completed: the recovery of \<^verbatim>\<open>w1\<close> with exit code 0, the update of
  \<^verbatim>\<open>w2\<close> with exit code 1, and the update of a node that is no longer a worker; the
  updater of \<^verbatim>\<open>w3\<close> is still running.
\<close>

definition updating_scaler :: StandardClusterScaler where
  "updating_scaler =
     example_scaler\<lparr>updaters :=
       [(''w1'', \<lparr>updater_node_id = ''w1'', for_recovery = True, is_alive = False,
                  exitcode = Some 0, update_time = Some 12\<rparr>),
        (''w2'', \<lparr>updater_node_id = ''w2'', for_recovery = False, is_alive = False,
                  exitcode = Some 1, update_time = None\<rparr>),
        (''gone'', \<lparr>updater_node_id = ''gone'', for_recovery = False, is_alive = False,
                    exitcode = Some 1, update_time = None\<rparr>),
        (''w3'', new_updater ''w3'' False)]\<rparr>"

section \<open>Properties\<close>

subsection \<open>Per-type keep or terminate\<close>

text \<open>
  C2. For a worker whose tags contain the user node type, \<^verbatim>\<open>_keep_worker_of_node_type\<close>
  returns terminate if and only if the type is absent from \<^verbatim>\<open>available_node_types\<close> or
  the incremented count of the type exceeds its \<^verbatim>\<open>max_workers\<close>; it returns keep if and
  only if the incremented count is at most the minimum of \<^verbatim>\<open>min_workers\<close> and
  \<^verbatim>\<open>max_workers\<close> of the type; it returns decide_later otherwise. The reason of a
  terminate names the available node types in the first case and is
  \<^verbatim>\<open>"max_workers_per_type"\<close> in the second. The count is a count: it is not negative.
\<close>

theorem keep_worker_of_node_type_iff:
  assumes tagged: "node_tags (provider self) node_id CLOUDTIK_TAG_USER_NODE_TYPE = Some node_type"
    and counted: "0 \<le> node_type_counts node_type"
  shows "(fst (keep_worker_of_node_type self node_id node_type_counts) = terminate \<longleftrightarrow>
            map_of (available_node_types self) node_type = None
            \<or> node_type_counts node_type + 1 > get_max_workers (available_node_types self) node_type)
       \<and> (fst (keep_worker_of_node_type self node_id node_type_counts) = keep \<longleftrightarrow>
            node_type_counts node_type + 1
              \<le> min (get_min_workers (available_node_types self) node_type)
                    (get_max_workers (available_node_types self) node_type))
       \<and> (fst (keep_worker_of_node_type self node_id node_type_counts) = decide_later \<longleftrightarrow>
            \<not> (map_of (available_node_types self) node_type = None
               \<or> node_type_counts node_type + 1
                    > get_max_workers (available_node_types self) node_type)
            \<and> \<not> node_type_counts node_type + 1
                  \<le> min (get_min_workers (available_node_types self) node_type)
                        (get_max_workers (available_node_types self) node_type))
       \<and> (fst (keep_worker_of_node_type self node_id node_type_counts) = terminate \<longrightarrow>
            snd (keep_worker_of_node_type self node_id node_type_counts) =
              (if map_of (available_node_types self) node_type = None
               then Some (not_in_available_node_types (map fst (available_node_types self)))
               else Some max_workers_per_type))"
proof (cases "map_of (available_node_types self) node_type")
  case None
  then have "get_min_workers (available_node_types self) node_type = 0"
    "get_max_workers (available_node_types self) node_type = 0"
    by (simp_all add: get_min_workers_def get_max_workers_def)
  with None tagged counted show ?thesis
    by (simp add: keep_worker_of_node_type_def Let_def)
next
  case (Some c)
  with tagged show ?thesis
    by (auto simp: keep_worker_of_node_type_def Let_def)
qed

theorem keep_worker_of_node_type_iff_witness:
  "node_tags (provider example_scaler) ''w1'' CLOUDTIK_TAG_USER_NODE_TYPE = Some ''worker.default''
   \<and> (0::int) \<le> (\<lambda>_. 2) ''worker.default''
   \<and> keep_worker_of_node_type example_scaler ''w1'' (\<lambda>_. 2) = (terminate, Some max_workers_per_type)
   \<and> get_max_workers (available_node_types example_scaler) ''worker.default'' = 2"
proof -
  have t: "node_tags (provider example_scaler) ''w1'' CLOUDTIK_TAG_USER_NODE_TYPE = Some ''worker.default''"
    by (simp add: example_scaler_def example_provider_def worker_tags_def
        CLOUDTIK_TAG_USER_NODE_TYPE_def CLOUDTIK_TAG_NODE_KIND_def CLOUDTIK_TAG_NODE_STATUS_def
        CLOUDTIK_TAG_LAUNCH_CONFIG_def CLOUDTIK_TAG_RUNTIME_CONFIG_def)
  have c: "(0::int) \<le> (\<lambda>_. 2) ''worker.default''" by simp
  have m: "get_max_workers (available_node_types example_scaler) ''worker.default'' = 2"
    "map_of (available_node_types example_scaler) ''worker.default'' \<noteq> None"
    by (simp_all add: get_max_workers_def example_scaler_def example_node_type_def)
  from keep_worker_of_node_type_iff [OF t c] m
  have "fst (keep_worker_of_node_type example_scaler ''w1'' (\<lambda>_. 2)) = terminate"
    "snd (keep_worker_of_node_type example_scaler ''w1'' (\<lambda>_. 2)) = Some max_workers_per_type"
    by simp_all
  then have "keep_worker_of_node_type example_scaler ''w1'' (\<lambda>_. 2) = (terminate, Some max_workers_per_type)"
    by (simp add: prod_eq_iff)
  with t c m show ?thesis by simp
qed

subsection \<open>Ordering the workers by last use\<close>

lemma sorted_reverse_mset: "mset (sorted_reverse key xs) = mset xs"
  by (simp add: sorted_reverse_def)

lemma sorted_reverse_descending:
  "sorted_wrt (\<lambda>a b. key b \<le> key a) (sorted_reverse key xs)"
proof -
  have "sorted (map key (sort_key key (rev xs)))" by simp
  then have "sorted_wrt (\<lambda>a b. key a \<le> key b) (sort_key key (rev xs))"
    by (simp add: sorted_map)
  then show ?thesis
    by (simp add: sorted_reverse_def sorted_wrt_rev)
qed

lemma sorted_reverse_stable:
  "filter (\<lambda>x. key x = k) (sorted_reverse key xs) = filter (\<lambda>x. key x = k) xs"
proof -
  have "filter (\<lambda>x. key x = k) (sort_key key (rev xs)) = filter (\<lambda>x. key x = k) (rev xs)"
    by (rule sort_key_stable)
  then show ?thesis
    by (simp add: sorted_reverse_def rev_filter [symmetric])
qed

text \<open>
  The order of two workers with equal last-used times is their order in the input, not
  the order of their node ids; and a worker without recorded usage comes before a worker
  whose recorded time is below \<open>- 1\<close>.
\<close>

theorem sort_based_on_last_used_counterexample:
  "sort_based_on_last_used example_scaler [''w2'', ''w1''] Map.empty = [''w2'', ''w1'']
   \<and> sort_based_on_last_used example_scaler [''w1'', ''w2''] Map.empty = [''w1'', ''w2'']
   \<and> sort_based_on_last_used example_scaler [''w1'', ''w2''] [''ip-w2'' \<mapsto> - 5] = [''w1'', ''w2'']"
  by (simp add: sort_based_on_last_used_def sorted_reverse_def last_time_used_def
      example_scaler_def example_provider_def)

text \<open>
  C7, amended. The result of \<^verbatim>\<open>_sort_based_on_last_used\<close> is a permutation of the node
  ids with the most recently used worker first; workers with equal last-used times
  keep the order they have in the input; and when every recorded time is above \<open>- 1\<close>,
  every worker whose ip has no recorded usage comes after all workers with recorded
  usage.
\<close>

theorem sort_based_on_last_used_stable:
  "mset (sort_based_on_last_used self nodes last_used) = mset nodes
   \<and> sorted_wrt (\<lambda>a b. last_time_used self last_used b \<le> last_time_used self last_used a)
        (sort_based_on_last_used self nodes last_used)
   \<and> (\<forall>t. filter (\<lambda>n. last_time_used self last_used n = t)
             (sort_based_on_last_used self nodes last_used)
           = filter (\<lambda>n. last_time_used self last_used n = t) nodes)
   \<and> ((\<forall>t \<in> ran last_used. - 1 < t) \<longrightarrow>
        (\<forall>i j. i < j \<and> j < length nodes
           \<and> last_used (internal_ip (provider self)
                 (sort_based_on_last_used self nodes last_used ! i)) = None
           \<longrightarrow> last_used (internal_ip (provider self)
                 (sort_based_on_last_used self nodes last_used ! j)) = None))"
proof -
  let ?key = "last_time_used self last_used"
  let ?s = "sort_based_on_last_used self nodes last_used"
  have len: "length ?s = length nodes"
    by (simp add: sort_based_on_last_used_def sorted_reverse_def)
  have desc: "sorted_wrt (\<lambda>a b. ?key b \<le> ?key a) ?s"
    unfolding sort_based_on_last_used_def by (rule sorted_reverse_descending)
  have tail: "last_used (internal_ip (provider self) (?s ! j)) = None"
    if pos: "\<forall>t \<in> ran last_used. - 1 < t" and ij: "i < j" "j < length nodes"
      and none: "last_used (internal_ip (provider self) (?s ! i)) = None" for i j
  proof (rule ccontr)
    assume "last_used (internal_ip (provider self) (?s ! j)) \<noteq> None"
    then obtain t where t: "last_used (internal_ip (provider self) (?s ! j)) = Some t" by auto
    then have "t \<in> ran last_used" by (auto simp: ran_def)
    with pos have "- 1 < t" by blast
    moreover have "?key (?s ! j) = t" using t by (simp add: last_time_used_def)
    moreover have "?key (?s ! i) = - 1" using none by (simp add: last_time_used_def)
    moreover have "?key (?s ! j) \<le> ?key (?s ! i)"
      using desc ij len by (simp add: sorted_wrt_iff_nth_less)
    ultimately show False by simp
  qed
  show ?thesis
    using desc tail
    by (auto simp: sort_based_on_last_used_def sorted_reverse_mset sorted_reverse_stable)
qed

theorem sort_based_on_last_used_stable_witness:
  "ran [''ip-w2'' \<mapsto> (7::real)] = {7} \<and> (- 1::real) < 7
   \<and> (0::nat) < 1 \<and> (1::nat) < length [''w1'', ''w2'']
   \<and> sort_based_on_last_used example_scaler [''w1'', ''w2''] [''ip-w2'' \<mapsto> 7] = [''w2'', ''w1'']
   \<and> [''ip-w2'' \<mapsto> (7::real)]
        (internal_ip (provider example_scaler)
           (sort_based_on_last_used example_scaler [''w1'', ''w2''] [''ip-w2'' \<mapsto> 7] ! 1)) = None"
  using sort_based_on_last_used_stable [of example_scaler "[''w1'', ''w2'']" "[''ip-w2'' \<mapsto> 7]"]
  by (simp add: sort_based_on_last_used_def sorted_reverse_def last_time_used_def
      example_scaler_def example_provider_def)


subsection \<open>Partially tagged nodes\<close>

lemmas tag_defs = CLOUDTIK_TAG_USER_NODE_TYPE_def CLOUDTIK_TAG_NODE_KIND_def CLOUDTIK_TAG_NODE_STATUS_def
        CLOUDTIK_TAG_LAUNCH_CONFIG_def CLOUDTIK_TAG_RUNTIME_CONFIG_def CLOUDTIK_TAG_FILE_MOUNTS_CONTENTS_def
        NODE_KIND_WORKER_def NODE_KIND_HEAD_def NODE_KIND_UNMANAGED_def STATUS_UP_TO_DATE_def STATUS_UPDATE_FAILED_def

text \<open>
  C8. The claim is that a node without the kind tag is skipped and that constructing
  \<^verbatim>\<open>NonTerminatedNodes\<close> succeeds. On the provider state with the untagged node
  \<^verbatim>\<open>new\<close> the constructor raises \<^verbatim>\<open>KeyError\<close> instead, and no node is classified.
\<close>

theorem NonTerminatedNodes_init_partially_tagged:
  "NonTerminatedNodes_init partially_tagged_provider = Inl (KeyError CLOUDTIK_TAG_NODE_KIND)
   \<and> node_tags partially_tagged_provider ''new'' CLOUDTIK_TAG_NODE_KIND = None
   \<and> provider_non_terminated_nodes partially_tagged_provider = [''head'', ''w1'', ''new'']"
  by (simp add: NonTerminatedNodes_init_def partially_tagged_provider_def example_provider_def
      worker_tags_def tag_defs)

subsection \<open>Reloading the configuration\<close>

text \<open>
  A config that fails validation replaces the previous one.
\<close>

theorem reset_validation_failure_counterexample:
  "validate_config example_externals invalid_config = Some (ValueError ''invalid config'')
   \<and> config example_scaler \<noteq> invalid_config
   \<and> map_sum id config (reset example_externals False (Inr invalid_config) example_scaler)
       = Inr invalid_config"
  by (simp add: reset_def reset_body_def example_externals_def invalid_config_def
      example_config_def example_scaler_def example_provider_def Let_def)

text \<open>
  C1, amended. When \<^verbatim>\<open>reset\<close> reads a changed configuration that fails validation, the
  failure is counted and logged and the reload goes on with the new configuration: when
  its keys \<^verbatim>\<open>file_mounts\<close>, \<^verbatim>\<open>cluster_synced_files\<close>, \<^verbatim>\<open>worker_setup_commands\<close> and
  \<^verbatim>\<open>worker_start_commands\<close> are present and \<^verbatim>\<open>hash_runtime_conf\<close> returns, \<^verbatim>\<open>reset\<close>
  returns with \<^verbatim>\<open>self.config\<close> equal to the new configuration and with the new hashes.
\<close>

theorem reset_validation_failure_continues:
  assumes changed: "new_config \<noteq> config self"
    and invalid: "validate_config ext new_config = Some e"
    and keys: "file_mounts new_config = Some fm" "cluster_synced_files new_config = Some synced"
      "worker_setup_commands new_config = Some setup"
      "worker_start_commands new_config = Some start"
    and hashed: "hash_runtime_conf ext fm synced [setup, start]
        (case file_mounts_sync_continuously (config self) of None \<Rightarrow> False | Some b \<Rightarrow> b)
          = Inr (h, fh)"
  shows "\<exists>self'. reset ext False (Inr new_config) self = Inr self'
           \<and> config self' = new_config \<and> runtime_hash self' = h
           \<and> file_mounts_contents_hash self' = fh
           \<and> ConfigValidationFailed \<in> set (logger self')
           \<and> config_validation_exceptions (prometheus_metrics self')
               = config_validation_exceptions (prometheus_metrics self) + 1"
  using assms
  by (auto simp: reset_def reset_body_def Let_def split: option.splits sum.splits)

theorem reset_validation_failure_continues_witness:
  "invalid_config \<noteq> config example_scaler
   \<and> validate_config example_externals invalid_config = Some (ValueError ''invalid config'')
   \<and> (\<exists>self'. reset example_externals False (Inr invalid_config) example_scaler = Inr self'
         \<and> config self' = invalid_config
         \<and> ConfigValidationFailed \<in> set (logger self'))"
proof -
  have c: "invalid_config \<noteq> config example_scaler"
    by (simp add: invalid_config_def example_scaler_def example_config_def)
  have v: "validate_config example_externals invalid_config = Some (ValueError ''invalid config'')"
    by (simp add: invalid_config_def example_externals_def example_config_def)
  have k: "file_mounts invalid_config = Some []" "cluster_synced_files invalid_config = Some []"
    "worker_setup_commands invalid_config = Some []" "worker_start_commands invalid_config = Some []"
    by (simp_all add: invalid_config_def example_config_def)
  have h: "hash_runtime_conf example_externals [] [] [[], []]
        (case file_mounts_sync_continuously (config example_scaler) of None \<Rightarrow> False | Some b \<Rightarrow> b)
          = Inr (''runtime-'', None)"
    by (simp add: example_externals_def)
  from reset_validation_failure_continues [OF c v k h] c v show ?thesis by blast
qed

subsection \<open>Terminating nodes to enforce the config constraints\<close>

lemmas example_defs = example_scaler_def example_provider_def example_config_def
  example_externals_def example_node_type_def worker_tags_def

lemmas enforce_defs = terminate_nodes_to_enforce_config_constraints_def enforce_node_def
  keep_worker_of_node_type_def get_min_workers_def get_max_workers_def launch_config_ok_def
  keep_node_def schedule_node_termination_def terminate_extra_nodes_def
  terminate_scheduled_nodes_def remove_terminating_nodes_def untrack_def get_node_type_def
  sort_based_on_last_used_def sorted_reverse_def last_time_used_def scheduled_since_def

lemma scheduled_append: "scheduled (xs @ ys) = scheduled xs @ scheduled ys"
  by (induction xs rule: scheduled.induct) simp_all

lemma scheduled_since_append:
  "logger s' = logger s @ new \<Longrightarrow> scheduled_since s s' = scheduled new"
  by (simp add: scheduled_since_def)

lemma launch_config_ok_cong:
  "provider s' = provider s \<Longrightarrow> config s' = config s
   \<Longrightarrow> available_node_types s' = available_node_types s
   \<Longrightarrow> disable_launch_config_check s' = disable_launch_config_check s
   \<Longrightarrow> launch_config_ok ext s' n = launch_config_ok ext s n"
  by (simp add: launch_config_ok_def cong: if_cong option.case_cong sum.case_cong)

text \<open>What one pass of the loop body, and the whole loop, do to the scaler.\<close>

lemma enforce_node_effect:
  assumes "enforce_node ext horizon last_used protected n (s, c, l) = Inr (s', c', l')"
  shows "\<exists>new. logger s' = logger s @ new
           \<and> nodes_to_terminate s' = nodes_to_terminate s @ map fst (scheduled new)
           \<and> (\<forall>m r. (m, r) \<in> set (scheduled new) \<longrightarrow> m = n
                 \<and> (r = idle \<longrightarrow>
                      (\<exists>t. last_used (internal_ip (provider s) n) = Some t \<and> t < horizon))
                 \<and> (r = outdated \<longrightarrow> launch_config_ok ext s n = Inr False)
                 \<and> r \<noteq> max_workers_reason)
           \<and> provider s' = provider s \<and> config s' = config s
           \<and> available_node_types s' = available_node_types s
           \<and> disable_launch_config_check s' = disable_launch_config_check s
           \<and> load_metrics s' = load_metrics s
           \<and> non_terminated_nodes s' = non_terminated_nodes s"
  using assms
  by (auto simp: enforce_node_def schedule_node_termination_def Let_def keep_worker_of_node_type_def
      split: prod.splits sum.splits if_splits bool.splits option.splits)

lemma enforce_nodes_effect:
  assumes "enforce_nodes ext horizon last_used protected ns (s, c, l) = Inr (s', c', l')"
  shows "\<exists>new. logger s' = logger s @ new
           \<and> nodes_to_terminate s' = nodes_to_terminate s @ map fst (scheduled new)
           \<and> (\<forall>m r. (m, r) \<in> set (scheduled new) \<longrightarrow> m \<in> set ns
                 \<and> (r = idle \<longrightarrow>
                      (\<exists>t. last_used (internal_ip (provider s) m) = Some t \<and> t < horizon))
                 \<and> (r = outdated \<longrightarrow> launch_config_ok ext s m = Inr False)
                 \<and> r \<noteq> max_workers_reason)
           \<and> provider s' = provider s \<and> config s' = config s
           \<and> available_node_types s' = available_node_types s
           \<and> disable_launch_config_check s' = disable_launch_config_check s
           \<and> load_metrics s' = load_metrics s
           \<and> non_terminated_nodes s' = non_terminated_nodes s"
  using assms
proof (induction ns arbitrary: s c l)
  case Nil
  then show ?case by simp
next
  case (Cons n ns)
  from Cons.prems obtain s1 c1 l1
    where step: "enforce_node ext horizon last_used protected n (s, c, l) = Inr (s1, c1, l1)"
      and rest: "enforce_nodes ext horizon last_used protected ns (s1, c1, l1) = Inr (s', c', l')"
    by (auto split: sum.splits)
  from enforce_node_effect [OF step] obtain new1
    where n1: "logger s1 = logger s @ new1"
      "nodes_to_terminate s1 = nodes_to_terminate s @ map fst (scheduled new1)"
      "\<forall>m r. (m, r) \<in> set (scheduled new1) \<longrightarrow> m = n
           \<and> (r = idle \<longrightarrow> (\<exists>t. last_used (internal_ip (provider s) n) = Some t \<and> t < horizon))
           \<and> (r = outdated \<longrightarrow> launch_config_ok ext s n = Inr False)
           \<and> r \<noteq> max_workers_reason"
      and f1: "provider s1 = provider s" "config s1 = config s"
      "available_node_types s1 = available_node_types s"
      "disable_launch_config_check s1 = disable_launch_config_check s"
      "load_metrics s1 = load_metrics s" "non_terminated_nodes s1 = non_terminated_nodes s"
    by blast
  from Cons.IH [OF rest] obtain new2
    where n2: "logger s' = logger s1 @ new2"
      "nodes_to_terminate s' = nodes_to_terminate s1 @ map fst (scheduled new2)"
      "\<forall>m r. (m, r) \<in> set (scheduled new2) \<longrightarrow> m \<in> set ns
           \<and> (r = idle \<longrightarrow> (\<exists>t. last_used (internal_ip (provider s1) m) = Some t \<and> t < horizon))
           \<and> (r = outdated \<longrightarrow> launch_config_ok ext s1 m = Inr False)
           \<and> r \<noteq> max_workers_reason"
      and f2: "provider s' = provider s1" "config s' = config s1"
      "available_node_types s' = available_node_types s1"
      "disable_launch_config_check s' = disable_launch_config_check s1"
      "load_metrics s' = load_metrics s1" "non_terminated_nodes s' = non_terminated_nodes s1"
    by blast
  have ok: "launch_config_ok ext s1 m = launch_config_ok ext s m" for m
    using f1 by (intro launch_config_ok_cong)
  have "logger s' = logger s @ (new1 @ new2)" using n1 n2 by simp
  moreover have "nodes_to_terminate s' = nodes_to_terminate s @ map fst (scheduled (new1 @ new2))"
    using n1 n2 by (simp add: scheduled_append)
  moreover have "\<forall>m r. (m, r) \<in> set (scheduled (new1 @ new2)) \<longrightarrow> m \<in> set (n # ns)
           \<and> (r = idle \<longrightarrow> (\<exists>t. last_used (internal_ip (provider s) m) = Some t \<and> t < horizon))
           \<and> (r = outdated \<longrightarrow> launch_config_ok ext s m = Inr False)
           \<and> r \<noteq> max_workers_reason"
    using n1(3) n2(3) f1(1) ok by (auto simp: scheduled_append)
  ultimately show ?case using f1 f2 by (intro exI [of _ "new1 @ new2"]) simp
qed

lemma schedule_all_effect:
  "\<exists>s'. schedule_all s ns r = Inr s'
     \<and> logger s' = logger s @ map (\<lambda>n. Terminating n (internal_ip (provider s) n) r) ns
     \<and> nodes_to_terminate s' = nodes_to_terminate s @ ns
     \<and> provider s' = provider s \<and> config s' = config s
     \<and> load_metrics s' = load_metrics s
     \<and> non_terminated_nodes s' = non_terminated_nodes s"
proof (induction ns arbitrary: s)
  case Nil
  show ?case by simp
next
  case (Cons n ns)
  let ?s1 = "s\<lparr>logger := logger s @ [Terminating n (internal_ip (provider s) n) r],
                event_summarizer := event_summarizer s @ [Removing (get_node_type s n) r],
                nodes_to_terminate := nodes_to_terminate s @ [n]\<rparr>"
  have step: "schedule_node_termination s n (Some r) = Inr ?s1"
    by (simp add: schedule_node_termination_def)
  from Cons.IH [of ?s1] step show ?case by auto
qed

lemma scheduled_map_Terminating:
  "scheduled (map (\<lambda>n. Terminating n (f n) r) ns) = map (\<lambda>n. (n, r)) ns"
  by (induction ns) simp_all

lemma terminate_scheduled_nodes_logger [simp]:
  "logger (terminate_scheduled_nodes s) = logger s"
  by (simp add: terminate_scheduled_nodes_def)

lemma terminate_scheduled_nodes_frame [simp]:
  "load_metrics (terminate_scheduled_nodes s) = load_metrics s"
  "config (terminate_scheduled_nodes s) = config s"
  "node_tags (provider (terminate_scheduled_nodes s)) = node_tags (provider s)"
  "internal_ip (provider (terminate_scheduled_nodes s)) = internal_ip (provider s)"
  by (simp_all add: terminate_scheduled_nodes_def)

text \<open>The surplus over the global limit, and how many of the eligible are taken.\<close>

lemma terminate_extra_nodes_effect:
  assumes mw: "max_workers (config s) = Some max_w"
    and sp: "surplus = int (length (worker_ids (non_terminated_nodes s)))
                       - int (length (nodes_to_terminate s)) - max_w"
  shows "\<exists>s'. terminate_extra_nodes s could = Inr s'
     \<and> logger s' = logger s
          @ (if surplus > int (length could) then [InconsistentConfig surplus (length could)] else [])
          @ map (\<lambda>n. Terminating n (internal_ip (provider s) n) max_workers_reason)
              (drop (length could - nat (min surplus (int (length could)))) could)"
proof (cases "surplus > int (length could)")
  case True
  let ?s1 = "s\<lparr>logger := logger s @ [InconsistentConfig surplus (length could)]\<rparr>"
  from schedule_all_effect [of ?s1 could max_workers_reason]
  obtain s2 where s2: "schedule_all ?s1 could max_workers_reason = Inr s2"
    "logger s2 = logger ?s1
       @ map (\<lambda>n. Terminating n (internal_ip (provider ?s1) n) max_workers_reason) could"
    by blast
  have "terminate_extra_nodes s could = Inr (terminate_scheduled_nodes s2)"
  proof (cases "could = []")
    case True
    with s2(1) have "s2 = ?s1" by simp
    with True mw sp \<open>surplus > int (length could)\<close> show ?thesis
      by (simp add: terminate_extra_nodes_def Let_def)
  next
    case False
    with mw sp \<open>surplus > int (length could)\<close> s2(1) show ?thesis
      by (simp add: terminate_extra_nodes_def Let_def)
  qed
  moreover have "min surplus (int (length could)) = int (length could)"
    using True by simp
  ultimately show ?thesis using True s2(2) by simp
next
  case False
  show ?thesis
  proof (cases "surplus > 0")
    case True
    from schedule_all_effect [of s "drop (length could - nat surplus) could" max_workers_reason]
    obtain s2 where s2:
      "schedule_all s (drop (length could - nat surplus) could) max_workers_reason = Inr s2"
      "logger s2 = logger s
         @ map (\<lambda>n. Terminating n (internal_ip (provider s) n) max_workers_reason)
             (drop (length could - nat surplus) could)"
      by blast
    have "terminate_extra_nodes s could = Inr (terminate_scheduled_nodes s2)"
      using mw sp False True s2(1)
      by (simp add: terminate_extra_nodes_def Let_def)
    moreover have "min surplus (int (length could)) = surplus"
      using False by simp
    ultimately show ?thesis using False s2(2) by simp
  next
    case nonpos: False
    have "terminate_extra_nodes s could = Inr (terminate_scheduled_nodes s)"
      using mw sp False nonpos
      by (simp add: terminate_extra_nodes_def Let_def)
    moreover have "drop (length could - nat (min surplus (int (length could)))) could = []"
      using nonpos by (simp add: min_def)
    ultimately show ?thesis using False by simp
  qed
qed

lemma enforce_constraints_parts:
  assumes "terminate_nodes_to_enforce_config_constraints ext self now = Inr final"
  shows "\<exists>timeout protected s1 counts could.
           idle_timeout_minutes (config self) = Some timeout
           \<and> (if resource_requests (load_metrics self) \<noteq> []
               then nodes_needed_for_request_resources ext self
                      (sort_based_on_last_used self (worker_ids (non_terminated_nodes self))
                         (last_used_time_by_ip (load_metrics self)))
               else Inr []) = Inr protected
           \<and> enforce_nodes ext (now - 60 * timeout) (last_used_time_by_ip (load_metrics self))
                protected
                (sort_based_on_last_used self (worker_ids (non_terminated_nodes self))
                   (last_used_time_by_ip (load_metrics self)))
                (self, (\<lambda>_. 0), []) = Inr (s1, counts, could)
           \<and> terminate_extra_nodes s1 could = Inr final"
  using assms
  by (auto simp: terminate_nodes_to_enforce_config_constraints_def Let_def
      split: option.splits sum.splits prod.splits if_splits)

lemma enforce_constraints_scheduled:
  assumes run: "terminate_nodes_to_enforce_config_constraints ext self now = Inr final"
    and mem: "(m, r) \<in> set (scheduled_since self final)"
  shows "(r = idle \<longrightarrow> (\<exists>timeout t. idle_timeout_minutes (config self) = Some timeout
              \<and> last_used_time_by_ip (load_metrics self) (internal_ip (provider self) m) = Some t
              \<and> t < now - 60 * timeout))
       \<and> (r = outdated \<longrightarrow> launch_config_ok ext self m = Inr False)"
proof -
  from enforce_constraints_parts [OF run] obtain timeout protected s1 counts could
    where tm: "idle_timeout_minutes (config self) = Some timeout"
      and loop: "enforce_nodes ext (now - 60 * timeout) (last_used_time_by_ip (load_metrics self))
                protected
                (sort_based_on_last_used self (worker_ids (non_terminated_nodes self))
                   (last_used_time_by_ip (load_metrics self)))
                (self, (\<lambda>_. 0), []) = Inr (s1, counts, could)"
      and extra: "terminate_extra_nodes s1 could = Inr final"
    by blast
  from enforce_nodes_effect [OF loop] obtain new1
    where n1: "logger s1 = logger self @ new1"
      and p1: "\<forall>m r. (m, r) \<in> set (scheduled new1) \<longrightarrow>
             (r = idle \<longrightarrow> (\<exists>t. last_used_time_by_ip (load_metrics self)
                                  (internal_ip (provider self) m) = Some t
                               \<and> t < now - 60 * timeout))
           \<and> (r = outdated \<longrightarrow> launch_config_ok ext self m = Inr False)"
      and cfg: "config s1 = config self"
    by blast
  from extra obtain max_w where mw: "max_workers (config s1) = Some max_w"
    by (auto simp: terminate_extra_nodes_def split: option.splits)
  define surplus where "surplus = int (length (worker_ids (non_terminated_nodes s1)))
                       - int (length (nodes_to_terminate s1)) - max_w"
  define warn where "warn = (if surplus > int (length could)
                             then [InconsistentConfig surplus (length could)] else [])"
  define xs where "xs = drop (length could - nat (min surplus (int (length could)))) could"
  from terminate_extra_nodes_effect [OF mw surplus_def, of could] extra
  have n2: "logger final = logger s1 @ warn
        @ map (\<lambda>n. Terminating n (internal_ip (provider s1) n) max_workers_reason) xs"
    unfolding warn_def xs_def by auto
  have w: "warn = [] \<or> (\<exists>a b. warn = [InconsistentConfig a b])"
    unfolding warn_def by simp
  have sw: "scheduled warn = []" using w by auto
  have "scheduled_since self final
          = scheduled new1 @ map (\<lambda>n. (n, max_workers_reason)) xs"
    using n1 n2 sw
    by (simp add: scheduled_since_def scheduled_append scheduled_map_Terminating)
  with mem have "(m, r) \<in> set (scheduled new1) \<or> r = max_workers_reason" by auto
  with p1 tm show ?thesis by auto
qed

lemma schedule_node_termination_since:
  "schedule_node_termination s n (Some r) = Inr s' \<Longrightarrow>
     scheduled_since s s' = [(n, r)] \<and> nodes_to_terminate s' = nodes_to_terminate s @ [n]"
  by (auto simp: schedule_node_termination_def scheduled_since_def)

lemma enforce_node_decide_later:
  assumes dl: "keep_worker_of_node_type self node_id counts = (decide_later, r)"
    and unprotected: "node_id \<notin> set protected"
  shows "if \<exists>t. last_used (internal_ip (provider self) node_id) = Some t \<and> t < horizon
         then \<exists>self'. enforce_node ext horizon last_used protected node_id (self, counts, could)
                         = Inr (self', counts, could)
                \<and> scheduled_since self self' = [(node_id, idle)]
                \<and> nodes_to_terminate self' = nodes_to_terminate self @ [node_id]
         else if launch_config_ok ext self node_id = Inr False
         then \<exists>self'. enforce_node ext horizon last_used protected node_id (self, counts, could)
                         = Inr (self', counts, could)
                \<and> scheduled_since self self' = [(node_id, outdated)]
                \<and> nodes_to_terminate self' = nodes_to_terminate self @ [node_id]
         else if launch_config_ok ext self node_id = Inr True
         then enforce_node ext horizon last_used protected node_id (self, counts, could)
                = Inr (self, keep_node self node_id counts, could @ [node_id])
         else \<exists>e. enforce_node ext horizon last_used protected node_id (self, counts, could)
                = Inl e"
proof -
  obtain s1 where s1: "schedule_node_termination self node_id (Some idle) = Inr s1"
    by (simp add: schedule_node_termination_def)
  obtain s2 where s2: "schedule_node_termination self node_id (Some outdated) = Inr s2"
    by (simp add: schedule_node_termination_def)
  note a = schedule_node_termination_since [OF s1] schedule_node_termination_since [OF s2]
  show ?thesis
  proof (cases "launch_config_ok ext self node_id")
    case (Inl e)
    with dl unprotected s1 a show ?thesis
      by (auto simp: enforce_node_def split: option.splits)
  next
    case (Inr ok)
    with dl unprotected s1 s2 a show ?thesis
      by (cases ok) (auto simp: enforce_node_def split: option.splits)
  qed
qed

lemma enforce_constraints_surplus:
  assumes run: "terminate_nodes_to_enforce_config_constraints ext self now = Inr final"
  shows "\<exists>timeout protected s1 counts could max_w.
           idle_timeout_minutes (config self) = Some timeout
           \<and> max_workers (config self) = Some max_w
           \<and> (if resource_requests (load_metrics self) \<noteq> []
               then nodes_needed_for_request_resources ext self
                      (sort_based_on_last_used self (worker_ids (non_terminated_nodes self))
                         (last_used_time_by_ip (load_metrics self)))
               else Inr []) = Inr protected
           \<and> enforce_nodes ext (now - 60 * timeout) (last_used_time_by_ip (load_metrics self))
                protected
                (sort_based_on_last_used self (worker_ids (non_terminated_nodes self))
                   (last_used_time_by_ip (load_metrics self)))
                (self, (\<lambda>_. 0), []) = Inr (s1, counts, could)
           \<and> (let surplus = int (length (worker_ids (non_terminated_nodes self)))
                               - int (length (nodes_to_terminate s1)) - max_w
              in scheduled_since s1 final
                   = map (\<lambda>n. (n, max_workers_reason))
                       (drop (length could - nat (min surplus (int (length could)))) could)
                 \<and> (InconsistentConfig surplus (length could)
                       \<in> set (drop (length (logger s1)) (logger final))
                     \<longleftrightarrow> surplus > int (length could)))"
proof -
  from enforce_constraints_parts [OF run] obtain timeout protected s1 counts could
    where tm: "idle_timeout_minutes (config self) = Some timeout"
      and prot: "(if resource_requests (load_metrics self) \<noteq> []
               then nodes_needed_for_request_resources ext self
                      (sort_based_on_last_used self (worker_ids (non_terminated_nodes self))
                         (last_used_time_by_ip (load_metrics self)))
               else Inr []) = Inr protected"
      and loop: "enforce_nodes ext (now - 60 * timeout) (last_used_time_by_ip (load_metrics self))
                protected
                (sort_based_on_last_used self (worker_ids (non_terminated_nodes self))
                   (last_used_time_by_ip (load_metrics self)))
                (self, (\<lambda>_. 0), []) = Inr (s1, counts, could)"
      and extra: "terminate_extra_nodes s1 could = Inr final"
    by blast
  from enforce_nodes_effect [OF loop]
  have fr: "config s1 = config self" "non_terminated_nodes s1 = non_terminated_nodes self"
    by auto
  from extra obtain max_w where mw: "max_workers (config s1) = Some max_w"
    by (auto simp: terminate_extra_nodes_def split: option.splits)
  define surplus where "surplus = int (length (worker_ids (non_terminated_nodes s1)))
                       - int (length (nodes_to_terminate s1)) - max_w"
  from terminate_extra_nodes_effect [OF mw surplus_def, of could] extra
  have lg: "logger final = logger s1
          @ (if surplus > int (length could) then [InconsistentConfig surplus (length could)] else [])
          @ map (\<lambda>n. Terminating n (internal_ip (provider s1) n) max_workers_reason)
              (drop (length could - nat (min surplus (int (length could)))) could)"
    by auto
  have "scheduled_since s1 final = map (\<lambda>n. (n, max_workers_reason))
                       (drop (length could - nat (min surplus (int (length could)))) could)"
    using lg by (simp add: scheduled_since_def scheduled_append scheduled_map_Terminating)
  moreover have "InconsistentConfig surplus (length could)
                       \<in> set (drop (length (logger s1)) (logger final))
                     \<longleftrightarrow> surplus > int (length could)"
    using lg by auto
  ultimately show ?thesis
    using tm prot mw loop fr unfolding surplus_def Let_def by (metis (no_types, lifting))
qed

text \<open>
  C3. In the loop of \<^verbatim>\<open>terminate_nodes_to_enforce_config_constraints\<close>, whatever the loop
  state, a worker that is decide_later and not protected by \<^verbatim>\<open>request_resources\<close> is
  scheduled with reason idle if its ip has a recorded last-used time earlier than the
  horizon; else with reason outdated if \<^verbatim>\<open>launch_config_ok\<close> is false; else it is kept
  (its type counted) and appended to the eligible list. When the routine returns, the
  loop has run with the horizon \<open>now - 60 * idle_timeout_minutes\<close>, and with \<open>surplus\<close>
  the worker count minus the scheduled terminations minus the global \<^verbatim>\<open>max_workers\<close>,
  exactly the last \<open>min surplus (length eligible)\<close> entries of the eligible list (none
  when the surplus is not positive) are scheduled after the loop, with reason max
  workers, and the inconsistency warning is logged if and only if the surplus exceeds
  the length of the eligible list.
\<close>

theorem enforce_decide_later_and_surplus:
  "(keep_worker_of_node_type self node_id counts = (decide_later, r)
      \<and> node_id \<notin> set protected \<longrightarrow>
      (if \<exists>t. last_used (internal_ip (provider self) node_id) = Some t \<and> t < horizon
       then \<exists>self'. enforce_node ext horizon last_used protected node_id (self, counts, could)
                       = Inr (self', counts, could)
              \<and> scheduled_since self self' = [(node_id, idle)]
              \<and> nodes_to_terminate self' = nodes_to_terminate self @ [node_id]
       else if launch_config_ok ext self node_id = Inr False
       then \<exists>self'. enforce_node ext horizon last_used protected node_id (self, counts, could)
                       = Inr (self', counts, could)
              \<and> scheduled_since self self' = [(node_id, outdated)]
              \<and> nodes_to_terminate self' = nodes_to_terminate self @ [node_id]
       else if launch_config_ok ext self node_id = Inr True
       then enforce_node ext horizon last_used protected node_id (self, counts, could)
              = Inr (self, keep_node self node_id counts, could @ [node_id])
       else \<exists>e. enforce_node ext horizon last_used protected node_id (self, counts, could)
              = Inl e))
   \<and> (terminate_nodes_to_enforce_config_constraints ext self now = Inr final \<longrightarrow>
       (\<exists>timeout nodes_not_allowed s1 node_type_counts nodes_we_could_terminate max_w.
           idle_timeout_minutes (config self) = Some timeout
           \<and> max_workers (config self) = Some max_w
           \<and> (if resource_requests (load_metrics self) \<noteq> []
               then nodes_needed_for_request_resources ext self
                      (sort_based_on_last_used self (worker_ids (non_terminated_nodes self))
                         (last_used_time_by_ip (load_metrics self)))
               else Inr []) = Inr nodes_not_allowed
           \<and> enforce_nodes ext (now - 60 * timeout) (last_used_time_by_ip (load_metrics self))
                nodes_not_allowed
                (sort_based_on_last_used self (worker_ids (non_terminated_nodes self))
                   (last_used_time_by_ip (load_metrics self)))
                (self, (\<lambda>_. 0), []) = Inr (s1, node_type_counts, nodes_we_could_terminate)
           \<and> (let surplus = int (length (worker_ids (non_terminated_nodes self)))
                               - int (length (nodes_to_terminate s1)) - max_w
              in scheduled_since s1 final
                   = map (\<lambda>n. (n, max_workers_reason))
                       (drop (length nodes_we_could_terminate
                                - nat (min surplus (int (length nodes_we_could_terminate))))
                          nodes_we_could_terminate)
                 \<and> (InconsistentConfig surplus (length nodes_we_could_terminate)
                       \<in> set (drop (length (logger s1)) (logger final))
                     \<longleftrightarrow> surplus > int (length nodes_we_could_terminate)))))"
  using enforce_node_decide_later [of self node_id counts r protected last_used horizon ext could]
    enforce_constraints_surplus [of ext self now final]
  by blast

theorem enforce_decide_later_and_surplus_witness:
  "keep_worker_of_node_type stale_scaler ''w1'' (\<lambda>_. 0) = (decide_later, None)
   \<and> ''w1'' \<notin> set ([]::NodeID list)
   \<and> launch_config_ok example_externals stale_scaler ''w1'' = Inr False
   \<and> (\<exists>self'. enforce_node example_externals 10 Map.empty [] ''w1'' (stale_scaler, (\<lambda>_. 0), [])
                  = Inr (self', (\<lambda>_. 0), [])
         \<and> scheduled_since stale_scaler self' = [(''w1'', outdated)])
   \<and> (\<exists>final. terminate_nodes_to_enforce_config_constraints example_externals crowded_scaler 10
                 = Inr final
         \<and> scheduled_since crowded_scaler final = [(''w2'', max_workers_reason)]
         \<and> (\<exists>s1 node_type_counts.
               enforce_nodes example_externals (10 - 60 * 5) Map.empty []
                 [''w1'', ''w2''] (crowded_scaler, (\<lambda>_. 0), [])
                 = Inr (s1, node_type_counts, [''w1'', ''w2''])
               \<and> scheduled_since s1 final = [(''w2'', max_workers_reason)]))"
proof -
  have a: "keep_worker_of_node_type stale_scaler ''w1'' (\<lambda>_. 0) = (decide_later, None)"
    "''w1'' \<notin> set ([]::NodeID list)"
    "launch_config_ok example_externals stale_scaler ''w1'' = Inr False"
    by (simp_all add: stale_scaler_def keep_worker_of_node_type_def get_min_workers_def
        get_max_workers_def launch_config_ok_def example_defs tag_defs)
  have ev: "map_sum id (scheduled_since crowded_scaler)
        (terminate_nodes_to_enforce_config_constraints example_externals crowded_scaler 10)
       = Inr [(''w2'', max_workers_reason)]"
    by (simp add: crowded_scaler_def enforce_defs example_defs tag_defs Let_def)
  then obtain final
    where run: "terminate_nodes_to_enforce_config_constraints example_externals crowded_scaler 10
                  = Inr final"
      and sch: "scheduled_since crowded_scaler final = [(''w2'', max_workers_reason)]"
    by (cases "terminate_nodes_to_enforce_config_constraints example_externals crowded_scaler 10")
      auto
  have loop: "\<exists>s1 c. enforce_nodes example_externals (10 - 60 * 5) Map.empty []
                 [''w1'', ''w2''] (crowded_scaler, (\<lambda>_. 0), []) = Inr (s1, c, [''w1'', ''w2''])
               \<and> nodes_to_terminate s1 = []"
    by (simp add: crowded_scaler_def enforce_defs example_defs tag_defs Let_def)
  then obtain s1 c
    where l: "enforce_nodes example_externals (10 - 60 * 5) Map.empty []
                 [''w1'', ''w2''] (crowded_scaler, (\<lambda>_. 0), []) = Inr (s1, c, [''w1'', ''w2''])"
      and e: "nodes_to_terminate s1 = []"
    by blast
  have pre: "idle_timeout_minutes (config crowded_scaler) = Some 5"
    "max_workers (config crowded_scaler) = Some 1"
    "last_used_time_by_ip (load_metrics crowded_scaler) = Map.empty"
    "sort_based_on_last_used crowded_scaler [''w1'', ''w2''] Map.empty = [''w1'', ''w2'']"
    "resource_requests (load_metrics crowded_scaler) = []"
    "worker_ids (non_terminated_nodes crowded_scaler) = [''w1'', ''w2'']"
    by (simp_all add: crowded_scaler_def enforce_defs example_defs)
  from enforce_decide_later_and_surplus
    [where self = stale_scaler and node_id = "''w1''" and counts = "\<lambda>_. 0" and r = None
      and protected = "[]" and last_used = Map.empty and horizon = 10
      and ext = example_externals and could = "[]"] a
  have A: "\<exists>self'. enforce_node example_externals 10 Map.empty [] ''w1'' (stale_scaler, (\<lambda>_. 0), [])
                  = Inr (self', (\<lambda>_. 0), [])
         \<and> scheduled_since stale_scaler self' = [(''w1'', outdated)]"
    by auto
  from enforce_decide_later_and_surplus
    [where self = crowded_scaler and ext = example_externals and now = 10 and final = final,
      THEN conjunct2, THEN mp, OF run]
  obtain timeout nna s1' c' could' mw
    where t: "idle_timeout_minutes (config crowded_scaler) = Some timeout"
      and m: "max_workers (config crowded_scaler) = Some mw"
      and p: "(if resource_requests (load_metrics crowded_scaler) \<noteq> []
               then nodes_needed_for_request_resources example_externals crowded_scaler
                      (sort_based_on_last_used crowded_scaler
                         (worker_ids (non_terminated_nodes crowded_scaler))
                         (last_used_time_by_ip (load_metrics crowded_scaler)))
               else Inr []) = Inr nna"
      and lp: "enforce_nodes example_externals (10 - 60 * timeout)
                (last_used_time_by_ip (load_metrics crowded_scaler)) nna
                (sort_based_on_last_used crowded_scaler
                   (worker_ids (non_terminated_nodes crowded_scaler))
                   (last_used_time_by_ip (load_metrics crowded_scaler)))
                (crowded_scaler, (\<lambda>_. 0), []) = Inr (s1', c', could')"
      and fin: "scheduled_since s1' final
                   = map (\<lambda>n. (n, max_workers_reason))
                       (drop (length could'
                                - nat (min (int (length (worker_ids (non_terminated_nodes crowded_scaler)))
                               - int (length (nodes_to_terminate s1')) - mw) (int (length could'))))
                          could')"
    unfolding Let_def by blast
  have tv: "timeout = 5" "mw = 1" "nna = []" using t m p pre by simp_all
  have "enforce_nodes example_externals (10 - 60 * 5) Map.empty []
                 [''w1'', ''w2''] (crowded_scaler, (\<lambda>_. 0), []) = Inr (s1', c', could')"
    using lp unfolding tv pre(3) pre(6) pre(4) .
  with l have same: "s1' = s1" "could' = [''w1'', ''w2'']" by simp_all
  have B: "scheduled_since s1 final = [(''w2'', max_workers_reason)]"
    using fin unfolding same tv pre(6) e by simp
  from a A run sch l B show ?thesis by blast
qed

subsection \<open>An idle timeout of zero\<close>

text \<open>
  With \<^verbatim>\<open>idle_timeout_minutes = 0\<close> the horizon is \<open>now\<close>: the worker \<^verbatim>\<open>w1\<close>, last used at
  time 5, is scheduled with reason idle in the tick at time 10.
\<close>

theorem idle_timeout_zero_counterexample:
  "idle_timeout_minutes (config idle_zero_scaler) = Some 0
   \<and> map_sum id (scheduled_since idle_zero_scaler)
        (terminate_nodes_to_enforce_config_constraints example_externals idle_zero_scaler 10)
       = Inr [(''w1'', idle)]"
  by (simp add: idle_zero_scaler_def enforce_defs example_defs tag_defs Let_def)

text \<open>
  C9, amended. With \<^verbatim>\<open>idle_timeout_minutes = 0\<close>, a worker is scheduled with reason idle
  by \<^verbatim>\<open>terminate_nodes_to_enforce_config_constraints\<close> only if its ip has a recorded
  last-used time strictly earlier than the \<open>now\<close> of the tick; a worker whose ip has no
  recorded usage, or was used at \<open>now\<close> or later, is never scheduled with that reason.
\<close>

theorem idle_timeout_zero_only_before_now:
  assumes "idle_timeout_minutes (config self) = Some 0"
    and "terminate_nodes_to_enforce_config_constraints ext self now = Inr final"
    and "(node_id, idle) \<in> set (scheduled_since self final)"
  shows "\<exists>t. last_used_time_by_ip (load_metrics self) (internal_ip (provider self) node_id) = Some t
           \<and> t < now"
  using enforce_constraints_scheduled [OF assms(2,3)] assms(1) by auto

theorem idle_timeout_zero_only_before_now_witness:
  "idle_timeout_minutes (config idle_zero_scaler) = Some 0
   \<and> (\<exists>final. terminate_nodes_to_enforce_config_constraints example_externals idle_zero_scaler 10
                 = Inr final
         \<and> (''w1'', idle) \<in> set (scheduled_since idle_zero_scaler final))
   \<and> (\<exists>t. last_used_time_by_ip (load_metrics idle_zero_scaler)
              (internal_ip (provider idle_zero_scaler) ''w1'') = Some t \<and> t < 10)"
proof -
  have z: "idle_timeout_minutes (config idle_zero_scaler) = Some 0"
    by (simp add: idle_zero_scaler_def)
  have "map_sum id (scheduled_since idle_zero_scaler)
        (terminate_nodes_to_enforce_config_constraints example_externals idle_zero_scaler 10)
       = Inr [(''w1'', idle)]"
    by (simp add: idle_zero_scaler_def enforce_defs example_defs tag_defs Let_def)
  then obtain final
    where run: "terminate_nodes_to_enforce_config_constraints example_externals idle_zero_scaler 10
                  = Inr final"
      and sch: "(''w1'', idle) \<in> set (scheduled_since idle_zero_scaler final)"
    by (cases "terminate_nodes_to_enforce_config_constraints example_externals idle_zero_scaler 10")
      auto
  from idle_timeout_zero_only_before_now [OF z run sch] z run sch show ?thesis by blast
qed

subsection \<open>Disabling the launch config check\<close>

lemma init_disable_switches_flag:
  assumes "cfg_provider (config self) = Some pc" "pc_disable_launch_config_check pc = Some True"
  shows "\<exists>self'. init_disable_switches self = Inr self' \<and> disable_launch_config_check self'"
  using assms by (simp add: init_disable_switches_def)



subsection \<open>Unhealthy nodes when the node updaters are disabled\<close>

lemmas unhealthy_defs = terminate_unhealthy_nodes_def unhealthy_node_def heartbeat_on_time_def
  mark_active_def schedule_node_termination_def terminate_scheduled_nodes_def
  remove_terminating_nodes_def untrack_def get_node_type_def scheduled_since_def

text \<open>
  One pass of the loop of \<^verbatim>\<open>terminate_unhealthy_nodes\<close>, and the whole loop: heartbeat
  times already recorded stay, a new one is the clock reading of a \<^verbatim>\<open>mark_active\<close>.
\<close>

lemma unhealthy_node_effect:
  assumes "unhealthy_node ext now n s = Inr s'"
  shows "\<exists>new. logger s' = logger s @ new
           \<and> provider s' = provider s
           \<and> (\<forall>ip t. last_heartbeat_time_by_ip (load_metrics s) ip = Some t
                 \<longrightarrow> last_heartbeat_time_by_ip (load_metrics s') ip = Some t)
           \<and> (\<forall>ip. last_heartbeat_time_by_ip (load_metrics s') ip
                      = last_heartbeat_time_by_ip (load_metrics s) ip
                  \<or> last_heartbeat_time_by_ip (load_metrics s) ip = None
                    \<and> last_heartbeat_time_by_ip (load_metrics s') ip = Some (time_time ext n))
           \<and> scheduled new =
               (if node_tags (provider s) n CLOUDTIK_TAG_NODE_STATUS = Some STATUS_UP_TO_DATE
                   \<and> \<not> (\<exists>t. last_heartbeat_time_by_ip (load_metrics s')
                               (internal_ip (provider s) n) = Some t
                            \<and> now - t < CLOUDTIK_HEARTBEAT_TIMEOUT_S ext)
                then [(n, lost_contact_with_node)] else [])
           \<and> (node_tags (provider s) n CLOUDTIK_TAG_NODE_STATUS = Some STATUS_UP_TO_DATE
                 \<longrightarrow> last_heartbeat_time_by_ip (load_metrics s') (internal_ip (provider s) n)
                       \<noteq> None)"
  using assms
  by (auto simp: unhealthy_node_def Let_def heartbeat_on_time_def mark_active_def
      schedule_node_termination_def split: option.splits if_splits)

lemma unhealthy_nodes_effect:
  assumes "unhealthy_nodes ext now ns s = Inr s'"
  shows "\<exists>new. logger s' = logger s @ new
           \<and> provider s' = provider s
           \<and> (\<forall>ip t. last_heartbeat_time_by_ip (load_metrics s) ip = Some t
                 \<longrightarrow> last_heartbeat_time_by_ip (load_metrics s') ip = Some t)
           \<and> (\<forall>ip. last_heartbeat_time_by_ip (load_metrics s') ip
                      = last_heartbeat_time_by_ip (load_metrics s) ip
                  \<or> last_heartbeat_time_by_ip (load_metrics s) ip = None
                    \<and> (\<exists>m \<in> set ns. last_heartbeat_time_by_ip (load_metrics s') ip
                                       = Some (time_time ext m)))
           \<and> (\<forall>m r. (m, r) \<in> set (scheduled new) \<longrightarrow>
                 m \<in> set ns \<and> r = lost_contact_with_node
                 \<and> node_tags (provider s) m CLOUDTIK_TAG_NODE_STATUS = Some STATUS_UP_TO_DATE
                 \<and> (\<exists>t. last_heartbeat_time_by_ip (load_metrics s')
                            (internal_ip (provider s) m) = Some t
                         \<and> \<not> now - t < CLOUDTIK_HEARTBEAT_TIMEOUT_S ext))
           \<and> (\<forall>m \<in> set ns.
                 node_tags (provider s) m CLOUDTIK_TAG_NODE_STATUS = Some STATUS_UP_TO_DATE \<longrightarrow>
                 last_heartbeat_time_by_ip (load_metrics s') (internal_ip (provider s) m) \<noteq> None
                 \<and> ((\<exists>t. last_heartbeat_time_by_ip (load_metrics s)
                            (internal_ip (provider s) m) = Some t
                          \<and> \<not> now - t < CLOUDTIK_HEARTBEAT_TIMEOUT_S ext)
                      \<longrightarrow> (m, lost_contact_with_node) \<in> set (scheduled new)))"
  using assms
proof (induction ns arbitrary: s)
  case Nil
  then show ?case by simp
next
  case (Cons n ns)
  let ?hb = "\<lambda>x. last_heartbeat_time_by_ip (load_metrics x)"
  let ?up = "\<lambda>m. node_tags (provider s) m CLOUDTIK_TAG_NODE_STATUS = Some STATUS_UP_TO_DATE"
  let ?late = "\<lambda>t. \<not> now - t < CLOUDTIK_HEARTBEAT_TIMEOUT_S ext"
  from Cons.prems obtain s1
    where step: "unhealthy_node ext now n s = Inr s1"
      and rest: "unhealthy_nodes ext now ns s1 = Inr s'"
    by (auto split: sum.splits)
  from unhealthy_node_effect [OF step] obtain new1
    where a: "logger s1 = logger s @ new1" "provider s1 = provider s"
      and a_mono: "\<And>ip t. ?hb s ip = Some t \<Longrightarrow> ?hb s1 ip = Some t"
      and a_orig: "\<And>ip. ?hb s1 ip = ?hb s ip
                      \<or> ?hb s ip = None \<and> ?hb s1 ip = Some (time_time ext n)"
      and a_sch: "scheduled new1 =
               (if ?up n \<and> \<not> (\<exists>t. ?hb s1 (internal_ip (provider s) n) = Some t \<and> \<not> ?late t)
                then [(n, lost_contact_with_node)] else [])"
      and a_marked: "?up n \<Longrightarrow> ?hb s1 (internal_ip (provider s) n) \<noteq> None"
    by auto
  from Cons.IH [OF rest] a(2) obtain new2
    where b: "logger s' = logger s1 @ new2" "provider s' = provider s"
      and b_mono: "\<And>ip t. ?hb s1 ip = Some t \<Longrightarrow> ?hb s' ip = Some t"
      and b_orig: "\<And>ip. ?hb s' ip = ?hb s1 ip
                      \<or> ?hb s1 ip = None \<and> (\<exists>m \<in> set ns. ?hb s' ip = Some (time_time ext m))"
      and b_sch: "\<And>m r. (m, r) \<in> set (scheduled new2) \<Longrightarrow>
                 m \<in> set ns \<and> r = lost_contact_with_node \<and> ?up m
                 \<and> (\<exists>t. ?hb s' (internal_ip (provider s) m) = Some t \<and> ?late t)"
      and b_all: "\<And>m. m \<in> set ns \<Longrightarrow> ?up m \<Longrightarrow>
                 ?hb s' (internal_ip (provider s) m) \<noteq> None
                 \<and> ((\<exists>t. ?hb s1 (internal_ip (provider s) m) = Some t \<and> ?late t)
                      \<longrightarrow> (m, lost_contact_with_node) \<in> set (scheduled new2))"
    by auto
  have lg: "logger s' = logger s @ (new1 @ new2)" using a b by simp
  have mono: "?hb s' ip = Some t" if "?hb s ip = Some t" for ip t
    using that a_mono b_mono by blast
  have orig: "?hb s' ip = ?hb s ip
                \<or> ?hb s ip = None \<and> (\<exists>m \<in> set (n # ns). ?hb s' ip = Some (time_time ext m))" for ip
    using a_orig [of ip] b_orig [of ip] b_mono [of ip] by auto
  have sch: "m \<in> set (n # ns) \<and> r = lost_contact_with_node \<and> ?up m
                 \<and> (\<exists>t. ?hb s' (internal_ip (provider s) m) = Some t \<and> ?late t)"
    if "(m, r) \<in> set (scheduled (new1 @ new2))" for m r
  proof -
    from that consider "(m, r) \<in> set (scheduled new1)" | "(m, r) \<in> set (scheduled new2)"
      by (auto simp: scheduled_append)
    then show ?thesis
    proof cases
      case 1
      with a_sch have mr: "m = n" "r = lost_contact_with_node" "?up n"
        and nt: "\<not> (\<exists>t. ?hb s1 (internal_ip (provider s) n) = Some t \<and> \<not> ?late t)"
        by (auto split: if_splits)
      from a_marked [OF mr(3)] obtain t where t: "?hb s1 (internal_ip (provider s) n) = Some t"
        by auto
      with nt have "?late t" by blast
      with b_mono [OF t] mr show ?thesis by auto
    next
      case 2
      from b_sch [OF 2] show ?thesis by auto
    qed
  qed
  have all: "?hb s' (internal_ip (provider s) m) \<noteq> None
                 \<and> ((\<exists>t. ?hb s (internal_ip (provider s) m) = Some t \<and> ?late t)
                      \<longrightarrow> (m, lost_contact_with_node) \<in> set (scheduled (new1 @ new2)))"
    if m: "m \<in> set (n # ns)" "?up m" for m
  proof (cases "m = n")
    case True
    from a_marked m True obtain t1 where t1: "?hb s1 (internal_ip (provider s) n) = Some t1"
      by auto
    have "(n, lost_contact_with_node) \<in> set (scheduled new1)"
      if "?hb s (internal_ip (provider s) n) = Some t" "?late t" for t
    proof -
      from a_mono [OF that(1)] that(2) m True
      show ?thesis by (simp add: a_sch)
    qed
    with b_mono [OF t1] True show ?thesis by (auto simp: scheduled_append)
  next
    case False
    with m have "m \<in> set ns" by simp
    from b_all [OF this m(2)] a_mono show ?thesis
      by (auto simp: scheduled_append)
  qed
  show ?case
    using lg b(2) mono orig sch all
    by (intro exI [of _ "new1 @ new2"]) blast
qed

lemma unhealthy_nodes_total:
  assumes "\<forall>m \<in> set ns. node_tags (provider s) m CLOUDTIK_TAG_NODE_STATUS \<noteq> None"
  shows "\<exists>s'. unhealthy_nodes ext now ns s = Inr s'"
  using assms
proof (induction ns arbitrary: s)
  case Nil
  show ?case by simp
next
  case (Cons n ns)
  from Cons.prems obtain st where "node_tags (provider s) n CLOUDTIK_TAG_NODE_STATUS = Some st"
    by auto
  then have "\<exists>s1. unhealthy_node ext now n s = Inr s1"
    by (simp add: unhealthy_node_def Let_def schedule_node_termination_def)
  then obtain s1 where step: "unhealthy_node ext now n s = Inr s1" by blast
  from unhealthy_node_effect [OF step] have "provider s1 = provider s" by auto
  with Cons.prems have "\<forall>m \<in> set ns. node_tags (provider s1) m CLOUDTIK_TAG_NODE_STATUS \<noteq> None"
    by simp
  from Cons.IH [OF this] step show ?case by simp
qed

text \<open>
  C5. \<^verbatim>\<open>terminate_unhealthy_nodes\<close> returns when every worker has a status tag. When it
  returns, for every worker: if its status is up-to-date and its ip has no recorded
  heartbeat, the ip is marked active (its heartbeat time is the clock reading of a
  \<^verbatim>\<open>mark_active\<close>) and, the clock readings being less than the heartbeat timeout after
  \<open>now\<close>, the worker is not scheduled; if its status is up-to-date and its last heartbeat
  is the timeout or more in the past, it is scheduled with reason lost contact with
  node; if its status is not up-to-date, it is not scheduled by this routine.
\<close>

theorem terminate_unhealthy_nodes_by_heartbeat:
  "((\<forall>m \<in> set (worker_ids (non_terminated_nodes self)).
       node_tags (provider self) m CLOUDTIK_TAG_NODE_STATUS \<noteq> None)
     \<longrightarrow> (\<exists>final. terminate_unhealthy_nodes ext self now = Inr final))
   \<and> (terminate_unhealthy_nodes ext self now = Inr final
        \<and> node_id \<in> set (worker_ids (non_terminated_nodes self)) \<longrightarrow>
       (node_tags (provider self) node_id CLOUDTIK_TAG_NODE_STATUS = Some STATUS_UP_TO_DATE
          \<and> last_heartbeat_time_by_ip (load_metrics self) (internal_ip (provider self) node_id)
              = None
          \<and> (\<forall>m. now - time_time ext m < CLOUDTIK_HEARTBEAT_TIMEOUT_S ext)
          \<longrightarrow> (\<exists>m. last_heartbeat_time_by_ip (load_metrics final)
                       (internal_ip (provider self) node_id) = Some (time_time ext m))
              \<and> (\<forall>r. (node_id, r) \<notin> set (scheduled_since self final)))
       \<and> (node_tags (provider self) node_id CLOUDTIK_TAG_NODE_STATUS = Some STATUS_UP_TO_DATE
          \<and> (\<exists>t. last_heartbeat_time_by_ip (load_metrics self)
                     (internal_ip (provider self) node_id) = Some t
                  \<and> CLOUDTIK_HEARTBEAT_TIMEOUT_S ext \<le> now - t)
          \<longrightarrow> (node_id, lost_contact_with_node) \<in> set (scheduled_since self final))
       \<and> (node_tags (provider self) node_id CLOUDTIK_TAG_NODE_STATUS \<noteq> Some STATUS_UP_TO_DATE
          \<longrightarrow> (\<forall>r. (node_id, r) \<notin> set (scheduled_since self final))))"
proof -
  let ?hb = "\<lambda>x. last_heartbeat_time_by_ip (load_metrics x)"
  let ?ws = "worker_ids (non_terminated_nodes self)"
  let ?ip = "internal_ip (provider self) node_id"
  let ?up = "node_tags (provider self) node_id CLOUDTIK_TAG_NODE_STATUS = Some STATUS_UP_TO_DATE"
  have total: "\<exists>final. terminate_unhealthy_nodes ext self now = Inr final"
    if "\<forall>m \<in> set ?ws. node_tags (provider self) m CLOUDTIK_TAG_NODE_STATUS \<noteq> None"
    using unhealthy_nodes_total [OF that, of ext now]
    by (auto simp: terminate_unhealthy_nodes_def)
  have rest: "(?up \<and> ?hb self ?ip = None
          \<and> (\<forall>m. now - time_time ext m < CLOUDTIK_HEARTBEAT_TIMEOUT_S ext)
          \<longrightarrow> (\<exists>m. ?hb final ?ip = Some (time_time ext m))
              \<and> (\<forall>r. (node_id, r) \<notin> set (scheduled_since self final)))
       \<and> (?up \<and> (\<exists>t. ?hb self ?ip = Some t \<and> CLOUDTIK_HEARTBEAT_TIMEOUT_S ext \<le> now - t)
          \<longrightarrow> (node_id, lost_contact_with_node) \<in> set (scheduled_since self final))
       \<and> (\<not> ?up \<longrightarrow> (\<forall>r. (node_id, r) \<notin> set (scheduled_since self final)))"
    if run: "terminate_unhealthy_nodes ext self now = Inr final" and mem: "node_id \<in> set ?ws"
  proof -
    from run obtain s1 where loop: "unhealthy_nodes ext now ?ws self = Inr s1"
      and fin: "final = terminate_scheduled_nodes s1"
      by (auto simp: terminate_unhealthy_nodes_def split: sum.splits)
    from unhealthy_nodes_effect [OF loop] obtain new
      where lg: "logger s1 = logger self @ new"
        and orig: "\<And>ip. ?hb s1 ip = ?hb self ip
                  \<or> ?hb self ip = None \<and> (\<exists>m \<in> set ?ws. ?hb s1 ip = Some (time_time ext m))"
        and sch: "\<And>m r. (m, r) \<in> set (scheduled new) \<Longrightarrow>
                 r = lost_contact_with_node
                 \<and> node_tags (provider self) m CLOUDTIK_TAG_NODE_STATUS = Some STATUS_UP_TO_DATE
                 \<and> (\<exists>t. ?hb s1 (internal_ip (provider self) m) = Some t
                         \<and> \<not> now - t < CLOUDTIK_HEARTBEAT_TIMEOUT_S ext)"
        and all: "\<And>m. m \<in> set ?ws \<Longrightarrow>
                 node_tags (provider self) m CLOUDTIK_TAG_NODE_STATUS = Some STATUS_UP_TO_DATE \<Longrightarrow>
                 ?hb s1 (internal_ip (provider self) m) \<noteq> None
                 \<and> ((\<exists>t. ?hb self (internal_ip (provider self) m) = Some t
                          \<and> \<not> now - t < CLOUDTIK_HEARTBEAT_TIMEOUT_S ext)
                      \<longrightarrow> (m, lost_contact_with_node) \<in> set (scheduled new))"
      by blast
    have since: "scheduled_since self final = scheduled new"
      using lg fin by (simp add: scheduled_since_def)
    have hbf: "?hb final = ?hb s1" using fin by simp
    have one: "(\<exists>m. ?hb final ?ip = Some (time_time ext m))
              \<and> (\<forall>r. (node_id, r) \<notin> set (scheduled_since self final))"
      if up: ?up and none: "?hb self ?ip = None"
        and clock: "\<forall>m. now - time_time ext m < CLOUDTIK_HEARTBEAT_TIMEOUT_S ext"
    proof -
      from all [OF mem up] have "?hb s1 ?ip \<noteq> None" by blast
      with orig [of ?ip] none obtain m where m: "?hb s1 ?ip = Some (time_time ext m)" by auto
      have "(node_id, r) \<notin> set (scheduled new)" for r
      proof
        assume "(node_id, r) \<in> set (scheduled new)"
        from sch [OF this] m have "\<not> now - time_time ext m < CLOUDTIK_HEARTBEAT_TIMEOUT_S ext"
          by auto
        with clock show False by blast
      qed
      with m hbf since show ?thesis by auto
    qed
    have two: "(node_id, lost_contact_with_node) \<in> set (scheduled_since self final)"
      if up: ?up and late: "\<exists>t. ?hb self ?ip = Some t \<and> CLOUDTIK_HEARTBEAT_TIMEOUT_S ext \<le> now - t"
    proof -
      from late have "\<exists>t. ?hb self ?ip = Some t \<and> \<not> now - t < CLOUDTIK_HEARTBEAT_TIMEOUT_S ext"
        by auto
      with all [OF mem up] since show ?thesis by simp
    qed
    have three: "(node_id, r) \<notin> set (scheduled_since self final)" if "\<not> ?up" for r
      using sch [of node_id r] that since by auto
    from one two three show ?thesis by blast
  qed
  from total rest show ?thesis by blast
qed

theorem terminate_unhealthy_nodes_by_heartbeat_witness:
  "worker_ids (non_terminated_nodes heartbeat_scaler) = [''w1'', ''w2'', ''w3'']
   \<and> CLOUDTIK_HEARTBEAT_TIMEOUT_S example_externals = 30
   \<and> last_heartbeat_time_by_ip (load_metrics heartbeat_scaler)
        (internal_ip (provider heartbeat_scaler) ''w1'') = Some 50
   \<and> last_heartbeat_time_by_ip (load_metrics heartbeat_scaler)
        (internal_ip (provider heartbeat_scaler) ''w2'') = None
   \<and> node_tags (provider heartbeat_scaler) ''w3'' CLOUDTIK_TAG_NODE_STATUS = Some ''setting-up''
   \<and> (\<exists>final. terminate_unhealthy_nodes example_externals heartbeat_scaler 100 = Inr final
         \<and> scheduled_since heartbeat_scaler final = [(''w1'', lost_contact_with_node)]
         \<and> (\<exists>m. last_heartbeat_time_by_ip (load_metrics final)
                   (internal_ip (provider heartbeat_scaler) ''w2'')
                 = Some (time_time example_externals m)))"
proof -
  have facts: "worker_ids (non_terminated_nodes heartbeat_scaler) = [''w1'', ''w2'', ''w3'']"
    "CLOUDTIK_HEARTBEAT_TIMEOUT_S example_externals = 30"
    "last_heartbeat_time_by_ip (load_metrics heartbeat_scaler)
        (internal_ip (provider heartbeat_scaler) ''w1'') = Some 50"
    "last_heartbeat_time_by_ip (load_metrics heartbeat_scaler)
        (internal_ip (provider heartbeat_scaler) ''w2'') = None"
    "node_tags (provider heartbeat_scaler) ''w3'' CLOUDTIK_TAG_NODE_STATUS = Some ''setting-up''"
    "node_tags (provider heartbeat_scaler) ''w2'' CLOUDTIK_TAG_NODE_STATUS = Some STATUS_UP_TO_DATE"
    "\<forall>m. 100 - time_time example_externals m < CLOUDTIK_HEARTBEAT_TIMEOUT_S example_externals"
    by (simp_all add: heartbeat_scaler_def example_defs tag_defs)
  have "map_sum id (scheduled_since heartbeat_scaler)
          (terminate_unhealthy_nodes example_externals heartbeat_scaler 100)
        = Inr [(''w1'', lost_contact_with_node)]"
    by (simp add: heartbeat_scaler_def unhealthy_defs example_defs tag_defs Let_def)
  then obtain final
    where run: "terminate_unhealthy_nodes example_externals heartbeat_scaler 100 = Inr final"
      and sch: "scheduled_since heartbeat_scaler final = [(''w1'', lost_contact_with_node)]"
    by (cases "terminate_unhealthy_nodes example_externals heartbeat_scaler 100") auto
  have mem: "''w2'' \<in> set (worker_ids (non_terminated_nodes heartbeat_scaler))"
    by (simp add: facts(1))
  from terminate_unhealthy_nodes_by_heartbeat
    [where self = heartbeat_scaler and ext = example_externals and now = 100 and final = final
      and node_id = "''w2''", THEN conjunct2, THEN mp, OF conjI [OF run mem],
      THEN conjunct1, THEN mp, OF conjI [OF facts(6) conjI [OF facts(4) facts(7)]]]
  have "\<exists>m. last_heartbeat_time_by_ip (load_metrics final)
                   (internal_ip (provider heartbeat_scaler) ''w2'')
                 = Some (time_time example_externals m)"
    by blast
  with facts run sch show ?thesis by blast
qed

subsection \<open>Completed updates\<close>

lemmas completed_defs = process_completed_updates_def completed_update_def del_updater_def
  failed_update_def mark_active_def schedule_node_termination_def terminate_scheduled_nodes_def
  remove_terminating_nodes_def untrack_def get_node_type_def scheduled_since_def new_updater_def

text \<open>
  The loop over the completed updaters, field by field: \<open>cs\<close> is the list of completed
  entries and the second component the list \<^verbatim>\<open>failed_nodes\<close>.
\<close>

lemma completed_update_fields:
  "provider (fst (completed_update ext c st)) = provider (fst st)"
  "logger (fst (completed_update ext c st)) = logger (fst st)"
  "nodes_to_terminate (fst (completed_update ext c st)) = nodes_to_terminate (fst st)"
  "non_terminated_nodes (fst (completed_update ext c st)) = non_terminated_nodes (fst st)"
  "updaters (fst (completed_update ext c st)) = AList.delete (fst c) (updaters (fst st))"
  "snd (completed_update ext c st)
     = snd st @ (if exitcode (snd c) = Some 0 then [] else [fst c])"
  by (simp_all add: completed_update_def del_updater_def split: prod.splits)

lemma fold_completed_frame:
  "provider (fst (fold (completed_update ext) cs st)) = provider (fst st)
   \<and> logger (fst (fold (completed_update ext) cs st)) = logger (fst st)
   \<and> nodes_to_terminate (fst (fold (completed_update ext) cs st)) = nodes_to_terminate (fst st)
   \<and> non_terminated_nodes (fst (fold (completed_update ext) cs st))
       = non_terminated_nodes (fst st)"
  by (induction cs arbitrary: st) (simp_all add: completed_update_fields)

lemma fold_completed_updaters:
  "updaters (fst (fold (completed_update ext) cs st))
     = filter (\<lambda>(k, v). k \<notin> fst ` set cs) (updaters (fst st))"
proof (induction cs arbitrary: st)
  case Nil
  show ?case by simp
next
  case (Cons c cs)
  have "filter (\<lambda>(k, v). k \<notin> fst ` set cs) (filter (\<lambda>(k, v). fst c \<noteq> k) xs)
          = filter (\<lambda>(k, v). k \<notin> fst ` set (c # cs)) xs" for xs :: "(NodeID \<times> NodeUpdaterThread) list"
    by (induction xs) auto
  then show ?case
    by (simp add: Cons.IH completed_update_fields AList.delete_eq)
qed

lemma fold_completed_failed:
  "snd (fold (completed_update ext) cs st)
     = snd st @ map fst (filter (\<lambda>(n, u). exitcode u \<noteq> Some 0) cs)"
  by (induction cs arbitrary: st) (auto simp: completed_update_fields)

lemma fold_completed_num_successful:
  "num_successful_updates (fst (fold (completed_update ext) cs st)) n
     = num_successful_updates (fst st) n
       + length (filter (\<lambda>(k, u). k = n \<and> exitcode u = Some 0) cs)"
  by (induction cs arbitrary: st)
    (auto simp: completed_update_def del_updater_def split: prod.splits)

lemma fold_completed_num_failed:
  "num_failed_updates (fst (fold (completed_update ext) cs st)) n
     = num_failed_updates (fst st) n
       + length (filter (\<lambda>(k, u). k = n \<and> exitcode u \<noteq> Some 0) cs)"
  by (induction cs arbitrary: st)
    (auto simp: completed_update_def del_updater_def split: prod.splits)

lemma fold_completed_metrics:
  "successful_updates (prometheus_metrics (fst (fold (completed_update ext) cs st)))
     = successful_updates (prometheus_metrics (fst st))
       + length (filter (\<lambda>(k, u). exitcode u = Some 0) cs)"
  "successful_recoveries (prometheus_metrics (fst (fold (completed_update ext) cs st)))
     = successful_recoveries (prometheus_metrics (fst st))
       + length (filter (\<lambda>(k, u). exitcode u = Some 0 \<and> for_recovery u) cs)"
  "failed_updates (prometheus_metrics (fst (fold (completed_update ext) cs st)))
     = failed_updates (prometheus_metrics (fst st))
       + length (filter (\<lambda>(k, u). exitcode u \<noteq> Some 0) cs)"
  "failed_recoveries (prometheus_metrics (fst (fold (completed_update ext) cs st)))
     = failed_recoveries (prometheus_metrics (fst st))
       + length (filter (\<lambda>(k, u). exitcode u \<noteq> Some 0 \<and> for_recovery u) cs)"
  by (induction cs arbitrary: st;
      auto simp: completed_update_def del_updater_def split: prod.splits)+

lemma fold_completed_tracker:
  "node_tracker (fst (fold (completed_update ext) cs st)) n
     = (if n \<in> fst ` set (filter (\<lambda>(k, u). exitcode u \<noteq> Some 0) cs) then None
        else node_tracker (fst st) n)"
  by (induction cs arbitrary: st)
    (auto simp: completed_update_def del_updater_def untrack_def split: prod.splits)

lemma fold_completed_heartbeat_kept:
  "\<exists>m. last_heartbeat_time_by_ip (load_metrics (fst st)) ip = Some (time_time ext m) \<Longrightarrow>
   \<exists>m. last_heartbeat_time_by_ip (load_metrics (fst (fold (completed_update ext) cs st))) ip
          = Some (time_time ext m)"
proof (induction cs arbitrary: st)
  case Nil
  then show ?case by simp
next
  case (Cons c cs)
  have "\<exists>m. last_heartbeat_time_by_ip (load_metrics (fst (completed_update ext c st))) ip
          = Some (time_time ext m)"
    using Cons.prems
    by (auto simp: completed_update_def del_updater_def mark_active_def split: prod.splits)
  from Cons.IH [OF this] show ?case by simp
qed

lemma fold_completed_marked:
  "(n, u) \<in> set cs \<Longrightarrow> exitcode u = Some 0 \<Longrightarrow>
   \<exists>m. last_heartbeat_time_by_ip (load_metrics (fst (fold (completed_update ext) cs st)))
          (internal_ip (provider (fst st)) n) = Some (time_time ext m)"
proof (induction cs arbitrary: st)
  case Nil
  then show ?case by simp
next
  case (Cons c cs)
  show ?case
  proof (cases "c = (n, u)")
    case True
    have "\<exists>m. last_heartbeat_time_by_ip (load_metrics (fst (completed_update ext c st)))
             (internal_ip (provider (fst st)) n) = Some (time_time ext m)"
      using True Cons.prems(2)
      by (auto simp: completed_update_def del_updater_def mark_active_def split: prod.splits)
    from fold_completed_heartbeat_kept [OF this] show ?thesis by simp
  next
    case False
    with Cons.prems have "(n, u) \<in> set cs" by simp
    from Cons.IH [OF this Cons.prems(2), of "completed_update ext c st"]
    show ?thesis by (simp add: completed_update_fields)
  qed
qed

text \<open>The loop over the failed nodes, and the batch termination.\<close>

lemma failed_updates_effect:
  "\<exists>s'. for_each failed_update fs s = (None, s')
     \<and> logger s' = logger s
          @ map (\<lambda>n. if n \<in> set (worker_ids (non_terminated_nodes s))
                      then Terminating n (internal_ip (provider s) n) launch_failed
                      else NodeAlreadyTerminated n) fs
     \<and> nodes_to_terminate s' = nodes_to_terminate s
          @ filter (\<lambda>n. n \<in> set (worker_ids (non_terminated_nodes s))) fs
     \<and> provider s' = provider s \<and> load_metrics s' = load_metrics s
     \<and> updaters s' = updaters s \<and> orphaned_updaters s' = orphaned_updaters s
     \<and> num_successful_updates s' = num_successful_updates s
     \<and> num_failed_updates s' = num_failed_updates s
     \<and> node_tracker s' = node_tracker s
     \<and> prometheus_metrics s' = prometheus_metrics s
     \<and> non_terminated_nodes s' = non_terminated_nodes s"
proof (induction fs arbitrary: s)
  case Nil
  show ?case by simp
next
  case (Cons n fs)
  obtain s1 where step: "failed_update n s = (None, s1)"
    and s1: "logger s1 = logger s
          @ [if n \<in> set (worker_ids (non_terminated_nodes s))
             then Terminating n (internal_ip (provider s) n) launch_failed
             else NodeAlreadyTerminated n]"
      "nodes_to_terminate s1 = nodes_to_terminate s
          @ (if n \<in> set (worker_ids (non_terminated_nodes s)) then [n] else [])"
      "provider s1 = provider s" "load_metrics s1 = load_metrics s"
      "updaters s1 = updaters s" "orphaned_updaters s1 = orphaned_updaters s"
      "num_successful_updates s1 = num_successful_updates s"
      "num_failed_updates s1 = num_failed_updates s"
      "node_tracker s1 = node_tracker s"
      "prometheus_metrics s1 = prometheus_metrics s"
      "non_terminated_nodes s1 = non_terminated_nodes s"
    by (cases "n \<in> set (worker_ids (non_terminated_nodes s))")
      (simp_all add: failed_update_def schedule_node_termination_def)
  from Cons.IH [of s1] step s1 show ?case by auto
qed

lemma scheduled_failed:
  "scheduled (map (\<lambda>n. if n \<in> W then Terminating n (f n) r else NodeAlreadyTerminated n) fs)
     = map (\<lambda>n. (n, r)) (filter (\<lambda>n. n \<in> W) fs)"
  by (induction fs) simp_all

lemma fold_untrack:
  "fold (\<lambda>node tracker. untrack tracker node) ns tracker n
     = (if n \<in> set ns then None else tracker n)"
  by (induction ns arbitrary: tracker) (auto simp: untrack_def)

lemma terminate_scheduled_nodes_fields:
  "updaters (terminate_scheduled_nodes s) = updaters s"
  "orphaned_updaters (terminate_scheduled_nodes s) = orphaned_updaters s"
  "num_successful_updates (terminate_scheduled_nodes s) = num_successful_updates s"
  "num_failed_updates (terminate_scheduled_nodes s) = num_failed_updates s"
  "successful_updates (prometheus_metrics (terminate_scheduled_nodes s))
     = successful_updates (prometheus_metrics s)"
  "successful_recoveries (prometheus_metrics (terminate_scheduled_nodes s))
     = successful_recoveries (prometheus_metrics s)"
  "failed_updates (prometheus_metrics (terminate_scheduled_nodes s))
     = failed_updates (prometheus_metrics s)"
  "failed_recoveries (prometheus_metrics (terminate_scheduled_nodes s))
     = failed_recoveries (prometheus_metrics s)"
  "terminate_nodes_calls (provider (terminate_scheduled_nodes s))
     = terminate_nodes_calls (provider s)
       @ (if nodes_to_terminate s = [] then [] else [nodes_to_terminate s])"
  "node_tracker (terminate_scheduled_nodes s) n
     = (if n \<in> set (nodes_to_terminate s) then None else node_tracker s n)"
  by (simp_all add: terminate_scheduled_nodes_def fold_untrack)

lemma length_filter_key:
  "distinct (map fst cs) \<Longrightarrow> (n, u) \<in> set cs \<Longrightarrow> P u \<Longrightarrow>
     length (filter (\<lambda>(k, v). k = n \<and> P v) cs) = 1"
proof (induction cs)
  case Nil
  then show ?case by simp
next
  case (Cons c cs)
  show ?case
  proof (cases "c = (n, u)")
    case True
    with Cons.prems have "n \<notin> fst ` set cs" by auto
    then have "filter (\<lambda>(k, v). k = n \<and> P v) cs = []"
      by (force simp: filter_empty_conv)
    with True Cons.prems show ?thesis by simp
  next
    case False
    with Cons.prems have mem: "(n, u) \<in> set cs" by simp
    then have "n \<in> fst ` set cs" by force
    moreover from Cons.prems have "fst c \<notin> fst ` set cs" by simp
    ultimately have "fst c \<noteq> n" by blast
    with mem Cons show ?thesis by (auto split: prod.splits)
  qed
qed

lemma filter_dead_keys:
  assumes "distinct (map fst xs)"
  shows "filter (\<lambda>(k, v). k \<notin> fst ` set (filter (\<lambda>(n, u). \<not> is_alive u) xs)) xs
           = filter (\<lambda>(n, u). is_alive u) xs"
proof (rule filter_cong [OF refl])
  fix x assume x: "x \<in> set xs"
  obtain k v where kv: "x = (k, v)" by (cases x)
  have "k \<in> fst ` set (filter (\<lambda>(n, u). \<not> is_alive u) xs) \<longleftrightarrow> \<not> is_alive v"
  proof
    assume "k \<in> fst ` set (filter (\<lambda>(n, u). \<not> is_alive u) xs)"
    then obtain v' where v': "(k, v') \<in> set xs" "\<not> is_alive v'" by auto
    from assms v'(1) x kv have "v' = v" by (meson eq_key_imp_eq_value)
    with v' show "\<not> is_alive v" by simp
  next
    assume "\<not> is_alive v"
    with x kv show "k \<in> fst ` set (filter (\<lambda>(n, u). \<not> is_alive u) xs)" by force
  qed
  with kv show "(case x of (k, v) \<Rightarrow> k \<notin> fst ` set (filter (\<lambda>(n, u). \<not> is_alive u) xs))
                 = (case x of (n, u) \<Rightarrow> is_alive u)"
    by simp
qed

lemma process_completed_updates_parts:
  fixes ext self
  defines "cs \<equiv> filter (\<lambda>(n, u). \<not> is_alive u) (updaters self)"
  defines "failed \<equiv> map fst (filter (\<lambda>(n, u). exitcode u \<noteq> Some 0) cs)"
  defines "s1 \<equiv> fst (fold (completed_update ext) cs (self, []))"
  shows "\<exists>s2. for_each failed_update failed s1 = (None, s2)
           \<and> process_completed_updates ext self
               = (None, if failed = [] then s1 else terminate_scheduled_nodes s2)"
proof -
  have f: "snd (fold (completed_update ext) cs (self, [])) = failed"
    by (simp add: fold_completed_failed failed_def)
  from failed_updates_effect [of failed s1] obtain s2
    where s2: "for_each failed_update failed s1 = (None, s2)" by blast
  have "process_completed_updates ext self
               = (None, if failed = [] then s1 else terminate_scheduled_nodes s2)"
  proof (cases "cs = []")
    case True
    then show ?thesis
      by (simp add: process_completed_updates_def cs_def [symmetric] failed_def s1_def)
  next
    case False
    obtain x1 x2 where fo: "fold (completed_update ext) cs (self, []) = (x1, x2)"
      by (cases "fold (completed_update ext) cs (self, [])")
    with f have x: "x1 = s1" "x2 = failed" by (simp_all add: s1_def)
    show ?thesis
      using False s2
      by (simp add: process_completed_updates_def cs_def [symmetric] fo x)
  qed
  with s2 show ?thesis by blast
qed

text \<open>
  C6. \<^verbatim>\<open>process_completed_updates\<close> raises nothing, and the entries of \<^verbatim>\<open>self.updaters\<close>
  that remain are exactly those whose thread is alive. For every entry found not
  alive: it is deleted from the map; on exit code zero the node's count of successful
  updates is incremented and its ip is marked active; on another exit code the node's
  count of failed updates is incremented, the node is untracked, and it is scheduled
  with reason launch failed if and only if its id is in the worker set. The metrics
  count one successful update per zero exit, one successful recovery per zero exit of a
  recovery updater, and one failed update per non-zero exit. The scheduled terminations
  are performed by at most one call of \<^verbatim>\<open>provider.terminate_nodes\<close>, with the whole list.
\<close>

theorem process_completed_updates_effect:
  assumes keys: "distinct (map fst (updaters self))"
    and run: "process_completed_updates ext self = (err, final)"
  shows "err = None
     \<and> updaters final = filter (\<lambda>(n, u). is_alive u) (updaters self)
     \<and> (\<forall>n u. (n, u) \<in> set (updaters self) \<and> \<not> is_alive u \<longrightarrow>
          map_of (updaters final) n = None
          \<and> (exitcode u = Some 0 \<longrightarrow>
                num_successful_updates final n = num_successful_updates self n + 1
                \<and> (\<exists>m. last_heartbeat_time_by_ip (load_metrics final)
                          (internal_ip (provider self) n) = Some (time_time ext m)))
          \<and> (exitcode u \<noteq> Some 0 \<longrightarrow>
                num_failed_updates final n = num_failed_updates self n + 1
                \<and> node_tracker final n = None
                \<and> ((n, launch_failed) \<in> set (scheduled_since self final)
                      \<longleftrightarrow> n \<in> set (worker_ids (non_terminated_nodes self)))))
     \<and> successful_updates (prometheus_metrics final)
         = successful_updates (prometheus_metrics self)
           + length (filter (\<lambda>(n, u). \<not> is_alive u \<and> exitcode u = Some 0) (updaters self))
     \<and> successful_recoveries (prometheus_metrics final)
         = successful_recoveries (prometheus_metrics self)
           + length (filter (\<lambda>(n, u). \<not> is_alive u \<and> exitcode u = Some 0 \<and> for_recovery u)
                       (updaters self))
     \<and> failed_updates (prometheus_metrics final)
         = failed_updates (prometheus_metrics self)
           + length (filter (\<lambda>(n, u). \<not> is_alive u \<and> exitcode u \<noteq> Some 0) (updaters self))
     \<and> terminate_nodes_calls (provider final)
         = terminate_nodes_calls (provider self)
           @ (let failed = map fst (filter (\<lambda>(n, u). \<not> is_alive u \<and> exitcode u \<noteq> Some 0)
                                      (updaters self));
                  batch = nodes_to_terminate self
                            @ filter (\<lambda>n. n \<in> set (worker_ids (non_terminated_nodes self))) failed
              in if failed = [] \<or> batch = [] then [] else [batch])"
proof -
  define cs where "cs = filter (\<lambda>(n, u). \<not> is_alive u) (updaters self)"
  define failed where "failed = map fst (filter (\<lambda>(n, u). exitcode u \<noteq> Some 0) cs)"
  define s1 where "s1 = fst (fold (completed_update ext) cs (self, []))"
  let ?W = "set (worker_ids (non_terminated_nodes self))"
  from process_completed_updates_parts [where ext = ext and self = self] obtain s2
    where s2: "for_each failed_update failed s1 = (None, s2)"
      and pcu: "process_completed_updates ext self
               = (None, if failed = [] then s1 else terminate_scheduled_nodes s2)"
    unfolding cs_def failed_def s1_def by blast
  from pcu run have err: "err = None"
    and final: "final = (if failed = [] then s1 else terminate_scheduled_nodes s2)"
    by simp_all
  have fr1: "provider s1 = provider self" "logger s1 = logger self"
    "nodes_to_terminate s1 = nodes_to_terminate self"
    "non_terminated_nodes s1 = non_terminated_nodes self"
    using fold_completed_frame [of ext cs "(self, [])"] by (simp_all add: s1_def)
  from failed_updates_effect [of failed s1] s2 fr1
  have fr2: "logger s2 = logger self
          @ map (\<lambda>n. if n \<in> ?W then Terminating n (internal_ip (provider self) n) launch_failed
                      else NodeAlreadyTerminated n) failed"
    "nodes_to_terminate s2 = nodes_to_terminate self @ filter (\<lambda>n. n \<in> ?W) failed"
    "provider s2 = provider self" "load_metrics s2 = load_metrics s1"
    "updaters s2 = updaters s1" "num_successful_updates s2 = num_successful_updates s1"
    "num_failed_updates s2 = num_failed_updates s1" "node_tracker s2 = node_tracker s1"
    "prometheus_metrics s2 = prometheus_metrics s1"
    by simp_all
  have distinct_cs: "distinct (map fst cs)"
    using keys unfolding cs_def by (rule distinct_map_filter)
  have upd: "updaters final = filter (\<lambda>(n, u). is_alive u) (updaters self)"
    using fold_completed_updaters [of ext cs "(self, [])"] filter_dead_keys [OF keys]
    by (simp add: final fr2 terminate_scheduled_nodes_fields s1_def cs_def)
  have sched: "scheduled_since self final = map (\<lambda>n. (n, launch_failed)) (filter (\<lambda>n. n \<in> ?W) failed)"
    by (simp add: final scheduled_since_def fr1 fr2 scheduled_failed)
  have per: "map_of (updaters final) n = None
          \<and> (exitcode u = Some 0 \<longrightarrow>
                num_successful_updates final n = num_successful_updates self n + 1
                \<and> (\<exists>m. last_heartbeat_time_by_ip (load_metrics final)
                          (internal_ip (provider self) n) = Some (time_time ext m)))
          \<and> (exitcode u \<noteq> Some 0 \<longrightarrow>
                num_failed_updates final n = num_failed_updates self n + 1
                \<and> node_tracker final n = None
                \<and> ((n, launch_failed) \<in> set (scheduled_since self final) \<longleftrightarrow> n \<in> ?W))"
    if mem: "(n, u) \<in> set (updaters self)" and dead: "\<not> is_alive u" for n u
  proof -
    from mem dead have in_cs: "(n, u) \<in> set cs" by (simp add: cs_def)
    have gone: "map_of (updaters final) n = None"
    proof (rule ccontr)
      assume "map_of (updaters final) n \<noteq> None"
      then obtain v where "(n, v) \<in> set (updaters final)" by (auto dest: map_of_SomeD)
      with upd have v: "(n, v) \<in> set (updaters self)" "is_alive v" by auto
      from keys v(1) mem have "v = u" by (meson eq_key_imp_eq_value)
      with v(2) dead show False by simp
    qed
    have ok: "num_successful_updates final n = num_successful_updates self n + 1
                \<and> (\<exists>m. last_heartbeat_time_by_ip (load_metrics final)
                          (internal_ip (provider self) n) = Some (time_time ext m))"
      if z: "exitcode u = Some 0"
    proof -
      have "length (filter (\<lambda>(k, v). k = n \<and> exitcode v = Some 0) cs) = 1"
        using length_filter_key [OF distinct_cs in_cs, of "\<lambda>v. exitcode v = Some 0"] z by simp
      then have "num_successful_updates s1 n = num_successful_updates self n + 1"
        using fold_completed_num_successful [of ext cs "(self, [])" n] by (simp add: s1_def)
      moreover have "\<exists>m. last_heartbeat_time_by_ip (load_metrics s1)
                          (internal_ip (provider self) n) = Some (time_time ext m)"
        using fold_completed_marked [OF in_cs z, of ext "(self, [])"] by (simp add: s1_def)
      ultimately show ?thesis
        by (simp add: final fr2 terminate_scheduled_nodes_fields)
    qed
    have bad: "num_failed_updates final n = num_failed_updates self n + 1
                \<and> node_tracker final n = None
                \<and> ((n, launch_failed) \<in> set (scheduled_since self final) \<longleftrightarrow> n \<in> ?W)"
      if nz: "exitcode u \<noteq> Some 0"
    proof -
      have "length (filter (\<lambda>(k, v). k = n \<and> exitcode v \<noteq> Some 0) cs) = 1"
        using length_filter_key [OF distinct_cs in_cs, of "\<lambda>v. exitcode v \<noteq> Some 0"] nz by simp
      then have "num_failed_updates s1 n = num_failed_updates self n + 1"
        using fold_completed_num_failed [of ext cs "(self, [])" n] by (simp add: s1_def)
      moreover have nf: "n \<in> set failed"
        using in_cs nz unfolding failed_def by force
      then have "node_tracker s1 n = None"
        using fold_completed_tracker [of ext cs "(self, [])" n]
        by (simp add: s1_def failed_def)
      ultimately have "num_failed_updates final n = num_failed_updates self n + 1
                \<and> node_tracker final n = None"
        by (simp add: final fr2 terminate_scheduled_nodes_fields)
      moreover have "(n, launch_failed) \<in> set (scheduled_since self final) \<longleftrightarrow> n \<in> ?W"
        using nf by (auto simp: sched)
      ultimately show ?thesis by blast
    qed
    from gone ok bad show ?thesis by blast
  qed
  have flt: "filter P cs = filter (\<lambda>(n, u). \<not> is_alive u \<and> (case (n, u) of (n, u) \<Rightarrow> P (n, u)))
                             (updaters self)" for P
    unfolding cs_def by (simp add: split_def conj_commute)
  have metrics: "successful_updates (prometheus_metrics final)
         = successful_updates (prometheus_metrics self)
           + length (filter (\<lambda>(n, u). \<not> is_alive u \<and> exitcode u = Some 0) (updaters self))"
    "successful_recoveries (prometheus_metrics final)
         = successful_recoveries (prometheus_metrics self)
           + length (filter (\<lambda>(n, u). \<not> is_alive u \<and> exitcode u = Some 0 \<and> for_recovery u)
                       (updaters self))"
    "failed_updates (prometheus_metrics final)
         = failed_updates (prometheus_metrics self)
           + length (filter (\<lambda>(n, u). \<not> is_alive u \<and> exitcode u \<noteq> Some 0) (updaters self))"
    using fold_completed_metrics [of ext cs "(self, [])"]
    by (simp_all add: final fr2 terminate_scheduled_nodes_fields s1_def cs_def split_def
        conj_commute)
  have failed_eq: "failed = map fst (filter (\<lambda>(n, u). \<not> is_alive u \<and> exitcode u \<noteq> Some 0)
                                      (updaters self))"
    unfolding failed_def cs_def by (simp add: split_def conj_commute)
  have calls: "terminate_nodes_calls (provider final)
         = terminate_nodes_calls (provider self)
           @ (let batch = nodes_to_terminate self @ filter (\<lambda>n. n \<in> ?W) failed
              in if failed = [] \<or> batch = [] then [] else [batch])"
    by (simp add: final fr1 fr2 terminate_scheduled_nodes_fields Let_def)
  show ?thesis
    using err upd per metrics calls unfolding failed_eq Let_def by blast
qed

theorem process_completed_updates_effect_witness:
  "distinct (map fst (updaters updating_scaler))
   \<and> (\<exists>final. process_completed_updates example_externals updating_scaler = (None, final)
         \<and> updaters final = [(''w3'', new_updater ''w3'' False)]
         \<and> num_successful_updates final ''w1'' = 1
         \<and> num_failed_updates final ''w2'' = 1
         \<and> num_failed_updates final ''gone'' = 1
         \<and> (''w2'', launch_failed) \<in> set (scheduled_since updating_scaler final)
         \<and> (''gone'', launch_failed) \<notin> set (scheduled_since updating_scaler final)
         \<and> successful_recoveries (prometheus_metrics final) = 1
         \<and> terminate_nodes_calls (provider final) = [[''w2'']])"
proof -
  have keys: "distinct (map fst (updaters updating_scaler))"
    by (simp add: updating_scaler_def)
  obtain err final
    where run: "process_completed_updates example_externals updating_scaler = (err, final)"
    by (cases "process_completed_updates example_externals updating_scaler")
  note eff = process_completed_updates_effect [OF keys run]
  have w1: "(''w1'', \<lparr>updater_node_id = ''w1'', for_recovery = True, is_alive = False,
                  exitcode = Some 0, update_time = Some 12\<rparr>) \<in> set (updaters updating_scaler)"
    and w2: "(''w2'', \<lparr>updater_node_id = ''w2'', for_recovery = False, is_alive = False,
                  exitcode = Some 1, update_time = None\<rparr>) \<in> set (updaters updating_scaler)"
    and gone: "(''gone'', \<lparr>updater_node_id = ''gone'', for_recovery = False, is_alive = False,
                    exitcode = Some 1, update_time = None\<rparr>) \<in> set (updaters updating_scaler)"
    by (simp_all add: updating_scaler_def)
  have base: "num_successful_updates updating_scaler ''w1'' = 0"
    "num_failed_updates updating_scaler ''w2'' = 0"
    "num_failed_updates updating_scaler ''gone'' = 0"
    "worker_ids (non_terminated_nodes updating_scaler) = [''w1'', ''w2'']"
    "nodes_to_terminate updating_scaler = []"
    "terminate_nodes_calls (provider updating_scaler) = []"
    "successful_recoveries (prometheus_metrics updating_scaler) = 0"
    by (simp_all add: updating_scaler_def example_scaler_def example_provider_def)
  note c2 = eff [THEN conjunct2]
  note c3 = c2 [THEN conjunct2]
  note c4 = c3 [THEN conjunct2]
  note c5 = c4 [THEN conjunct2]
  note c6 = c5 [THEN conjunct2]
  note per = c3 [THEN conjunct1, rule_format]
  have d1: "\<not> is_alive \<lparr>updater_node_id = ''w1'', for_recovery = True, is_alive = False,
                  exitcode = Some 0, update_time = Some 12\<rparr>"
    and d2: "\<not> is_alive \<lparr>updater_node_id = ''w2'', for_recovery = False, is_alive = False,
                  exitcode = Some 1, update_time = None\<rparr>"
    and d3: "\<not> is_alive \<lparr>updater_node_id = ''gone'', for_recovery = False, is_alive = False,
                    exitcode = Some 1, update_time = None\<rparr>"
    by simp_all
  from eff [THEN conjunct1] have "err = None" .
  moreover from c2 [THEN conjunct1] have "updaters final = [(''w3'', new_updater ''w3'' False)]"
    by (simp add: updating_scaler_def new_updater_def)
  moreover from per [OF conjI [OF w1 d1]] base
  have "num_successful_updates final ''w1'' = 1" by simp
  moreover from per [OF conjI [OF w2 d2]] base have "num_failed_updates final ''w2'' = 1"
    "(''w2'', launch_failed) \<in> set (scheduled_since updating_scaler final)" by simp_all
  moreover from per [OF conjI [OF gone d3]] base have "num_failed_updates final ''gone'' = 1"
    "(''gone'', launch_failed) \<notin> set (scheduled_since updating_scaler final)" by simp_all
  moreover from c5 [THEN conjunct1]
  have "successful_recoveries (prometheus_metrics final) = 1"
    by (simp add: updating_scaler_def example_scaler_def new_updater_def)
  moreover from c6 [THEN conjunct2]
  have "terminate_nodes_calls (provider final) = [[''w2'']]"
    by (simp add: updating_scaler_def example_scaler_def example_provider_def new_updater_def)
  ultimately show ?thesis using keys run by blast
qed

subsection \<open>One updater per node\<close>




















end
